theory Spec2Isabelle
  imports Complex_Main
begin

section \<open>Data model\<close>

text \<open>
  The program is one class, \<open>PoliceShootingsAnalysis\<close>, holding a pandas table of
  incidents in \<open>self.shootings_data\<close> (\<open>None\<close> until loaded), and a \<open>main\<close> that loads
  the table and runs five analysis methods over it.

  A pandas table is columnar, and the model keeps it so: every column the code reads or
  writes is a field holding \<open>None\<close> (the table has no such column) or the list of its
  cells, a cell being \<open>None\<close> for a missing value (NaN / NaT).  Floating point numbers
  are modelled by real numbers.
\<close>

datatype py_error =
    CsvError string
  | KeyError string
  | AttributeError string
  | ValueError string
  | ZeroDivisionError
  | IndexError

datatype timestamp = Timestamp (ts_year: int) (ts_month: nat) (ts_day: nat)

text \<open>
  The \<open>date\<close> column has dtype \<open>object\<close> (text, as \<open>read_csv\<close> delivers it) before
  \<open>pd.to_datetime\<close> and dtype \<open>datetime64\<close> after it.
\<close>

datatype date_column =
    ObjectCol "string option list"
  | DatetimeCol "timestamp option list"

record frame =
  n_rows :: nat
  date_col :: "date_column option"
  year_col :: "int option list option"
  month_col :: "nat option list option"
  day_of_week_col :: "string option list option"
  age_col :: "real option list option"
  race_col :: "string option list option"
  gender_col :: "string option list option"
  armed_col :: "string option list option"
  state_col :: "string option list option"
  city_col :: "string option list option"
  region_col :: "string option list option"

record analysis =
  shootings_data :: "frame option"
  census_data :: "frame option"
  merged_data :: "frame option"

definition init :: analysis where
  "init = \<lparr>shootings_data = None, census_data = None, merged_data = None\<rparr>"

text \<open>Every column of a table has as many cells as the table has rows.\<close>

definition col_ok :: "nat \<Rightarrow> 'a list option \<Rightarrow> bool" where
  "col_ok n c = (case c of None \<Rightarrow> True | Some xs \<Rightarrow> length xs = n)"

definition date_cells :: "date_column \<Rightarrow> nat" where
  "date_cells c = (case c of ObjectCol ss \<Rightarrow> length ss | DatetimeCol ds \<Rightarrow> length ds)"

definition wf_frame :: "frame \<Rightarrow> bool" where
  "wf_frame df \<longleftrightarrow>
     (case date_col df of None \<Rightarrow> True | Some c \<Rightarrow> date_cells c = n_rows df) \<and>
     col_ok (n_rows df) (year_col df) \<and> col_ok (n_rows df) (month_col df) \<and>
     col_ok (n_rows df) (day_of_week_col df) \<and> col_ok (n_rows df) (age_col df) \<and>
     col_ok (n_rows df) (race_col df) \<and> col_ok (n_rows df) (gender_col df) \<and>
     col_ok (n_rows df) (armed_col df) \<and> col_ok (n_rows df) (state_col df) \<and>
     col_ok (n_rows df) (city_col df) \<and> col_ok (n_rows df) (region_col df)"

section \<open>The pandas operations the code uses\<close>

text \<open>\<open>Series.dropna\<close>: the cells that are present, in row order.\<close>

fun dropna :: "'a option list \<Rightarrow> 'a list" where
  "dropna [] = []"
| "dropna (None # cs) = dropna cs"
| "dropna (Some x # cs) = x # dropna cs"

text \<open>The distinct values of a list in order of first appearance.\<close>

definition unique :: "'a list \<Rightarrow> 'a list" where
  "unique xs = rev (remdups (rev xs))"

text \<open>
  \<open>Series.value_counts()\<close>: missing cells are dropped, each distinct value is paired with
  its number of occurrences, most frequent first.  Values with equal counts are kept in
  order of first appearance; no theorem below depends on how ties are ordered.
\<close>

definition value_counts :: "'a option list \<Rightarrow> ('a \<times> nat) list" where
  "value_counts col =
     (let xs = dropna col
      in sort_key (\<lambda>p. - int (snd p)) (map (\<lambda>v. (v, count_list xs v)) (unique xs)))"

text \<open>
  \<open>DataFrame.groupby(col).size()\<close>: rows whose key is missing are dropped (pandas'
  default \<open>dropna=True\<close>), the groups are sorted by key.
\<close>

definition groupby_size :: "('a::linorder) option list \<Rightarrow> ('a \<times> nat) list" where
  "groupby_size col =
     (let xs = dropna col
      in map (\<lambda>k. (k, count_list xs k)) (sort (remdups xs)))"

text \<open>\<open>Series.nunique()\<close>: the number of distinct values that are present.\<close>

definition nunique :: "'a option list \<Rightarrow> nat" where
  "nunique col = length (remdups (dropna col))"

text \<open>\<open>Series.min()\<close> and \<open>Series.max()\<close> skip missing cells; NaN when none is present.\<close>

definition col_min :: "('a::linorder) option list \<Rightarrow> 'a option" where
  "col_min col = (case dropna col of [] \<Rightarrow> None | x # xs \<Rightarrow> Some (fold min xs x))"

definition col_max :: "('a::linorder) option list \<Rightarrow> 'a option" where
  "col_max col = (case dropna col of [] \<Rightarrow> None | x # xs \<Rightarrow> Some (fold max xs x))"

text \<open>Timestamps are ordered by year, month, day.\<close>

definition ts_le :: "timestamp \<Rightarrow> timestamp \<Rightarrow> bool" where
  "ts_le a b \<longleftrightarrow>
     ts_year a < ts_year b \<or>
     (ts_year a = ts_year b \<and>
        (ts_month a < ts_month b \<or> (ts_month a = ts_month b \<and> ts_day a \<le> ts_day b)))"

definition ts_min :: "timestamp option list \<Rightarrow> timestamp option" where
  "ts_min col =
     (case dropna col of [] \<Rightarrow> None
      | x # xs \<Rightarrow> Some (fold (\<lambda>t m. if ts_le m t then m else t) xs x))"

definition ts_max :: "timestamp option list \<Rightarrow> timestamp option" where
  "ts_max col =
     (case dropna col of [] \<Rightarrow> None
      | x # xs \<Rightarrow> Some (fold (\<lambda>t m. if ts_le t m then m else t) xs x))"

text \<open>
  \<open>Series.dt.day_name()\<close>: the weekday of a calendar date, from the number of days since
  1970-01-01 (a Thursday).
\<close>

definition days_from_civil :: "timestamp \<Rightarrow> int" where
  "days_from_civil t =
     (let m = int (ts_month t);
          y = (if m \<le> 2 then ts_year t - 1 else ts_year t);
          era = y div 400;
          yoe = y - era * 400;
          doy = (153 * (if m > 2 then m - 3 else m + 9) + 2) div 5 + int (ts_day t) - 1;
          doe = yoe * 365 + yoe div 4 - yoe div 100 + doy
      in era * 146097 + doe - 719468)"

definition day_order :: "string list" where
  "day_order = [''Monday'', ''Tuesday'', ''Wednesday'', ''Thursday'', ''Friday'',
                ''Saturday'', ''Sunday'']"

definition day_name :: "timestamp \<Rightarrow> string" where
  "day_name t = day_order ! nat ((days_from_civil t + 3) mod 7)"

text \<open>
  \<open>numpy.round(x, 2)\<close>: to two decimals, a tie going to the even neighbour.  The
  model rounds the exact real number; the code rounds its binary64 approximation, which
  can lie just beside a tie of the exact value and then goes to the other neighbour.
  Either way the result is within 0.005 of the exact value, and the facts below use no
  more than that.
\<close>

definition round_half_even :: "real \<Rightarrow> int" where
  "round_half_even x =
     (let f = \<lfloor>x\<rfloor>; d = x - of_int f
      in if d < 1 / 2 then f else if d > 1 / 2 then f + 1 else if even f then f else f + 1)"

definition round2 :: "real \<Rightarrow> real" where
  "round2 x = of_int (round_half_even (x * 100)) / 100"

text \<open>
  \<open>Series[labels]\<close> with a list of labels: the entries in the order asked for; a label
  that is not in the index raises KeyError (the model reports the first such label).
\<close>

fun getitems :: "(string \<times> nat) list \<Rightarrow> string list \<Rightarrow> py_error + (string \<times> nat) list" where
  "getitems s [] = Inr []"
| "getitems s (l # ls) =
     (case map_of s l of
        None \<Rightarrow> Inl (KeyError l)
      | Some c \<Rightarrow> (case getitems s ls of Inl e \<Rightarrow> Inl e | Inr r \<Rightarrow> Inr ((l, c) # r)))"

text \<open>
  \<open>series[label] = v\<close>: the entry of an existing label is overwritten, a new label is
  appended.
\<close>

definition setitem :: "(string \<times> nat) list \<Rightarrow> string \<Rightarrow> nat \<Rightarrow> (string \<times> nat) list" where
  "setitem s l v =
     (if l \<in> set (map fst s) then map (\<lambda>p. if fst p = l then (l, v) else p) s
      else s @ [(l, v)])"

text \<open>
  \<open>Axes.bar(x, height)\<close> broadcasts its two arguments against each other (numpy's
  \<open>broadcast_arrays\<close>): equal lengths are paired, a single value is repeated, anything
  else raises ValueError.
\<close>

definition bar :: "nat list \<Rightarrow> nat list \<Rightarrow> py_error + (nat \<times> nat) list" where
  "bar xs hs =
     (if length hs = length xs then Inr (zip xs hs)
      else if length hs = 1 then Inr (map (\<lambda>x. (x, hd hs)) xs)
      else if length xs = 1 then Inr (map (\<lambda>h. (hd xs, h)) hs)
      else Inl (ValueError ''shape mismatch: objects cannot be broadcast to a single shape''))"

text \<open>
  \<open>Axes.pie(x, labels)\<close> draws one wedge per entry and raises ValueError when the wedge
  sizes sum to zero, as they do for an empty series.
\<close>

definition pie :: "(string \<times> nat) list \<Rightarrow> py_error + (string \<times> nat) list" where
  "pie s =
     (if sum_list (map snd s) = 0 then Inl (ValueError ''All wedge sizes are zero'')
      else Inr s)"

section \<open>What the program prints and draws\<close>

record comparison_row =
  Race :: string
  Shooting_Rate :: real
  Population_Rate :: real
  Ratio :: real

record temporal_figure =
  yearly_line :: "(int \<times> nat) list"
  monthly_bars :: "(nat \<times> nat) list"
  day_bars :: "(nat \<times> nat) list"
  day_ticklabels :: "string list"
  age_hist :: "real list option"

record demographic_figure =
  race_pie :: "(string \<times> nat) list option"
  comparison_bars :: "comparison_row list option"
  gender_bars :: "(string \<times> nat \<times> real) list option"
  armed_bars :: "(string \<times> nat) list option"

record geographic_figure =
  top_states :: "(string \<times> nat) list option"
  top_cities :: "(string \<times> nat) list option"
  region_pie :: "(string \<times> nat) list option"

text \<open>
  The output of a run is a list of events.  \<open>Message\<close> is a line printed verbatim.
  \<open>Decorated\<close> is a constant line that the source starts with a pictograph or a bullet
  character; it holds the text after that character.  The other events are the formatted
  lines and the figures, holding the values that are formatted or drawn (number
  formatting itself is not modelled).  \<open>AgeDescribe\<close> holds the ages that
  \<open>Series.describe()\<close> summarises.
\<close>

datatype event =
    Message string
  | Decorated string
  | ErrorLoading py_error
  | LoadedInfo nat "int option" "int option"
  | DatasetShape nat
  | DateRange "timestamp option" "timestamp option"
  | TextDateRange "string list"
  | YearlyCounts "(int \<times> nat) list"
  | RaceLine string nat real
  | AgeDescribe "real list"
  | StateCounts "(string \<times> nat) list"
  | ShowTemporal temporal_figure
  | ShowDemographic demographic_figure
  | ShowGeographic geographic_figure
  | Overall nat nat real timestamp timestamp
  | ShareLine string nat real
  | HighestYear int nat
  | LowestYear int nat
  | OverallTrend real

text \<open>
  A method either raises or returns the events it produced, and in both cases leaves
  the object in some state.  What a method printed before it raised is not recorded.
\<close>

type_synonym outcome = "(py_error + event list) \<times> analysis"

section \<open>load_data\<close>

text \<open>
  \<open>pd.to_datetime\<close> on a column: a missing cell becomes NaT, a text cell is parsed, and
  one text that cannot be parsed raises.  How pandas reads one text as a date is the
  parameter \<open>parse\<close>.
\<close>

definition to_datetime :: "(string \<Rightarrow> timestamp option) \<Rightarrow> date_column \<Rightarrow> py_error + timestamp option list" where
  "to_datetime parse c =
     (case c of
        DatetimeCol ds \<Rightarrow> Inr ds
      | ObjectCol ss \<Rightarrow>
          (if list_all (\<lambda>s. parse s \<noteq> None) (dropna ss)
           then Inr (map (\<lambda>cell. Option.bind cell parse) ss)
           else Inl (ValueError ''Unknown datetime string format'')))"

text \<open>
  \<open>load_data\<close> takes the outcome of \<open>pd.read_csv\<close> on the fixed path: an exception
  (no such file, a file that is no CSV) or the table read.  It returns what it printed,
  the flag, and the object's new state.  The table is stored in \<open>self.shootings_data\<close>
  before the date column is parsed.
\<close>

definition load_data :: "(string \<Rightarrow> timestamp option) \<Rightarrow> (py_error + frame) \<Rightarrow> analysis \<Rightarrow> (event list \<times> bool) \<times> analysis" where
  "load_data parse csv st =
     (let loading = Message ''Loading Washington Post police shootings data...''
      in case csv of
           Inl e \<Rightarrow> (([loading, ErrorLoading e], False), st)
         | Inr raw \<Rightarrow>
             (let st1 = st\<lparr>shootings_data := Some raw\<rparr>
              in case date_col raw of
                   None \<Rightarrow> (([loading, ErrorLoading (KeyError ''date'')], False), st1)
                 | Some c \<Rightarrow>
                     (case to_datetime parse c of
                        Inl e \<Rightarrow> (([loading, ErrorLoading e], False), st1)
                      | Inr ds \<Rightarrow>
                          (let years = map (map_option ts_year) ds;
                               df = raw\<lparr>date_col := Some (DatetimeCol ds), year_col := Some years\<rparr>
                           in (([loading,
                                 LoadedInfo (n_rows df) (col_min years) (col_max years),
                                 Message ''Note: For demonstration purposes, using sample census data structure.''],
                                True),
                               st\<lparr>shootings_data := Some df\<rparr>)))))"

text \<open>
  A loaded table: what \<open>load_data\<close> leaves in \<open>self.shootings_data\<close> when it returns
  True.  The dates are parsed and the year column is derived from them.
\<close>

definition loaded :: "frame \<Rightarrow> bool" where
  "loaded df \<longleftrightarrow>
     wf_frame df \<and>
     (case date_col df of
        Some (DatetimeCol ds) \<Rightarrow> year_col df = Some (map (map_option ts_year) ds)
      | _ \<Rightarrow> False)"

section \<open>explore_basic_statistics\<close>

text \<open>
  Lines 58 to 61: one line per race that occurs, with its count and its percentage of
  \<open>len(self.shootings_data)\<close>, rounded to two decimals.
\<close>

definition race_percentage :: "nat \<Rightarrow> nat \<Rightarrow> real" where
  "race_percentage n c = round2 (real c / real n * 100)"

definition race_lines :: "nat \<Rightarrow> string option list \<Rightarrow> event list" where
  "race_lines n rs =
     map (\<lambda>p. RaceLine (fst p) (snd p) (race_percentage n (snd p))) (value_counts rs)"

text \<open>
  Line 49 takes \<open>Series.min()\<close> and \<open>max()\<close> of the date column.  On parsed dates they
  are the earliest and latest date (NaT when every date is missing).  On a text column
  they are taken over the texts that are present.
\<close>

definition explore_basic_statistics :: "analysis \<Rightarrow> outcome" where
  "explore_basic_statistics st =
     (case shootings_data st of
        None \<Rightarrow> (Inr [Message ''Please load data first.''], st)
      | Some df \<Rightarrow>
          (case date_col df of
             None \<Rightarrow> (Inl (KeyError ''date''), st)
           | Some dc \<Rightarrow>
               (let range_line = (case dc of
                                    DatetimeCol ds \<Rightarrow> DateRange (ts_min ds) (ts_max ds)
                                  | ObjectCol ss \<Rightarrow> TextDateRange (dropna ss))
                in (case year_col df of
                       None \<Rightarrow> (Inl (KeyError ''year''), st)
                     | Some ys \<Rightarrow>
                         (Inr ([Message ''=== BASIC DATASET OVERVIEW ==='',
                                DatasetShape (n_rows df),
                                range_line,
                                Message (CHR 0x0A # ''=== YEARLY TRENDS ===''),
                                YearlyCounts (groupby_size ys),
                                Message (CHR 0x0A # ''=== RACE/ETHNICITY BREAKDOWN ==='')] @
                               (case race_col df of None \<Rightarrow> [] | Some rs \<Rightarrow> race_lines (n_rows df) rs) @
                               [Message (CHR 0x0A # ''=== AGE STATISTICS ==='')] @
                               (case age_col df of None \<Rightarrow> [] | Some ages \<Rightarrow> [AgeDescribe (dropna ages)]) @
                               [Message (CHR 0x0A # ''=== GEOGRAPHIC DISTRIBUTION (Top 10 States) ==='')] @
                               (case state_col df of None \<Rightarrow> []
                                | Some ss \<Rightarrow> [StateCounts (take 10 (value_counts ss))])),
                          st)))))"

section \<open>analyze_temporal_trends\<close>

definition analyze_temporal_trends :: "analysis \<Rightarrow> outcome" where
  "analyze_temporal_trends st =
     (case shootings_data st of
        None \<Rightarrow> (Inr [], st)
      | Some df \<Rightarrow>
          (case year_col df of
             None \<Rightarrow> (Inl (KeyError ''year''), st)
           | Some ys \<Rightarrow>
               (case date_col df of
                  None \<Rightarrow> (Inl (KeyError ''date''), st)
                | Some (ObjectCol ss) \<Rightarrow>
                    (Inl (AttributeError ''Can only use .dt accessor with datetimelike values''), st)
                | Some (DatetimeCol ds) \<Rightarrow>
                    (let yearly_counts = groupby_size ys;
                         months = map (map_option ts_month) ds;
                         df1 = df\<lparr>month_col := Some months\<rparr>;
                         st1 = st\<lparr>shootings_data := Some df1\<rparr>;
                         monthly_avg = groupby_size months
                     in case bar [1..<13] (map snd monthly_avg) of
                          Inl e \<Rightarrow> (Inl e, st1)
                        | Inr mbars \<Rightarrow>
                            (let days = map (map_option day_name) ds;
                                 df2 = df1\<lparr>day_of_week_col := Some days\<rparr>;
                                 st2 = st\<lparr>shootings_data := Some df2\<rparr>
                             in case getitems (value_counts days) day_order of
                                  Inl e \<Rightarrow> (Inl e, st2)
                                | Inr day_counts \<Rightarrow>
                                    (case bar [0..<7] (map snd day_counts) of
                                       Inl e \<Rightarrow> (Inl e, st2)
                                     | Inr dbars \<Rightarrow>
                                         (Inr [ShowTemporal
                                                \<lparr>yearly_line = yearly_counts,
                                                 monthly_bars = mbars,
                                                 day_bars = dbars,
                                                 day_ticklabels = map (take 3) day_order,
                                                 age_hist = map_option dropna (age_col df2)\<rparr>],
                                          st2)))))))"

section \<open>analyze_demographic_patterns\<close>

definition us_population_race :: "(string \<times> real) list" where
  "us_population_race =
     [(''W'', 72.4), (''B'', 12.6), (''H'', 16.3), (''A'', 4.8), (''N'', 0.9), (''O'', 2.9)]"

text \<open>Lines 144 to 156: the rows appended to \<open>comparison_data\<close>, in the order of \<open>race_counts\<close>.\<close>

fun comparison_loop :: "nat \<Rightarrow> (string \<times> nat) list \<Rightarrow> comparison_row list" where
  "comparison_loop counts_sum [] = []"
| "comparison_loop counts_sum ((race, c) # rest) =
     (case map_of us_population_race race of
        None \<Rightarrow> comparison_loop counts_sum rest
      | Some pop_pct \<Rightarrow>
          (let shooting_pct = real c / real counts_sum * 100
           in \<lparr>Race = race, Shooting_Rate = shooting_pct, Population_Rate = pop_pct,
               Ratio = shooting_pct / pop_pct\<rparr> # comparison_loop counts_sum rest))"

definition comparison_data :: "string option list \<Rightarrow> comparison_row list" where
  "comparison_data rs =
     (let race_counts = value_counts rs
      in comparison_loop (sum_list (map snd race_counts)) race_counts)"

text \<open>Lines 188 to 194: \<open>fillna('unknown')\<close>, then the fixed renaming.\<close>

definition armed_replace :: "string \<Rightarrow> string" where
  "armed_replace s =
     (if s = ''gun'' then ''firearm''
      else if s = ''knife'' then ''knife/blade''
      else if s = ''unarmed'' then ''unarmed''
      else if s = ''unknown weapon'' then ''unknown''
      else s)"

definition armed_simplified :: "string option list \<Rightarrow> string list" where
  "armed_simplified col =
     map (\<lambda>cell. armed_replace (case cell of None \<Rightarrow> ''unknown'' | Some s \<Rightarrow> s)) col"

text \<open>Lines 196 to 200: the series that the armed-status chart draws.\<close>

definition armed_chart :: "string option list \<Rightarrow> (string \<times> nat) list" where
  "armed_chart col =
     (let armed_counts = value_counts (map Some (armed_simplified col));
          top_categories = take 8 armed_counts;
          other_count = sum_list (map snd (drop 8 armed_counts))
      in if other_count > 0 then setitem top_categories ''other'' other_count
         else top_categories)"

definition gender_chart :: "string option list \<Rightarrow> (string \<times> nat \<times> real) list" where
  "gender_chart col =
     (let gender_counts = value_counts col;
          counts_sum = sum_list (map snd gender_counts)
      in map (\<lambda>p. (fst p, snd p, real (snd p) / real counts_sum * 100)) gender_counts)"

text \<open>
  The race panels, lines 129 to 172.  The pie of the race counts raises ValueError when
  no row has a race.  An empty \<open>comparison_data\<close> makes \<open>pd.DataFrame([])\<close> a table
  without columns, and reading its column \<open>Shooting_Rate\<close> on line 163 raises KeyError.
\<close>

definition race_panels :: "string option list \<Rightarrow> py_error + (string \<times> nat) list \<times> comparison_row list" where
  "race_panels rs =
     (case pie (value_counts rs) of
        Inl e \<Rightarrow> Inl e
      | Inr wedges \<Rightarrow>
          (if comparison_data rs = [] then Inl (KeyError ''Shooting_Rate'')
           else Inr (wedges, comparison_data rs)))"

definition analyze_demographic_patterns :: "analysis \<Rightarrow> outcome" where
  "analyze_demographic_patterns st =
     (case shootings_data st of
        None \<Rightarrow> (Inr [], st)
      | Some df \<Rightarrow>
          (case (case race_col df of
                   None \<Rightarrow> Inr None
                 | Some rs \<Rightarrow>
                     (case race_panels rs of Inl e \<Rightarrow> Inl e | Inr panels \<Rightarrow> Inr (Some panels))) of
             Inl e \<Rightarrow> (Inl e, st)
           | Inr panels \<Rightarrow>
               (Inr [ShowDemographic
                      \<lparr>race_pie = map_option fst panels,
                       comparison_bars = map_option snd panels,
                       gender_bars = map_option gender_chart (gender_col df),
                       armed_bars = map_option armed_chart (armed_col df)\<rparr>],
                st)))"

section \<open>analyze_geographic_patterns\<close>

definition region_mapping :: "(string \<times> string list) list" where
  "region_mapping =
     [(''Northeast'', [''CT'', ''ME'', ''MA'', ''NH'', ''NJ'', ''NY'', ''PA'', ''RI'', ''VT'']),
      (''Southeast'', [''AL'', ''AR'', ''FL'', ''GA'', ''KY'', ''LA'', ''MS'', ''NC'', ''SC'', ''TN'',
                      ''VA'', ''WV'']),
      (''Midwest'', [''IL'', ''IN'', ''IA'', ''KS'', ''MI'', ''MN'', ''MO'', ''NE'', ''ND'', ''OH'',
                    ''SD'', ''WI'']),
      (''Southwest'', [''AZ'', ''NM'', ''OK'', ''TX'']),
      (''West'', [''AK'', ''CA'', ''CO'', ''HI'', ''ID'', ''MT'', ''NV'', ''OR'', ''UT'', ''WA'', ''WY'']),
      (''Other'', [''DC'', ''DE'', ''MD''])]"

text \<open>Lines 250 to 253: the dictionary filled by the two nested loops.\<close>

definition state_to_region :: "string \<rightharpoonup> string" where
  "state_to_region =
     fold (\<lambda>(region, states) d. fold (\<lambda>state d'. d'(state \<mapsto> region)) states d)
          region_mapping Map.empty"

text \<open>\<open>Series.map(dict)\<close>: a missing cell and a cell that is no key both give NaN.\<close>

definition region_of :: "string option list \<Rightarrow> string option list" where
  "region_of ss = map (\<lambda>cell. Option.bind cell state_to_region) ss"

text \<open>
  The region column is stored on line 255; the pie of the region counts on line 258
  raises ValueError when no row's state is in the table.
\<close>

definition analyze_geographic_patterns :: "analysis \<Rightarrow> outcome" where
  "analyze_geographic_patterns st =
     (case shootings_data st of
        None \<Rightarrow> (Inr [], st)
      | Some df \<Rightarrow>
          (case state_col df of
             None \<Rightarrow>
               (Inr [ShowGeographic
                      \<lparr>top_states = None,
                       top_cities = map_option (\<lambda>cs. take 15 (value_counts cs)) (city_col df),
                       region_pie = None\<rparr>],
                st)
           | Some ss \<Rightarrow>
               (let df1 = df\<lparr>region_col := Some (region_of ss)\<rparr>;
                    st1 = st\<lparr>shootings_data := Some df1\<rparr>;
                    region_counts = value_counts (region_of ss)
                in case pie region_counts of
                     Inl e \<Rightarrow> (Inl e, st1)
                   | Inr wedges \<Rightarrow>
                       (Inr [ShowGeographic
                              \<lparr>top_states = Some (take 15 (value_counts ss)),
                               top_cities = map_option (\<lambda>cs. take 15 (value_counts cs)) (city_col df),
                               region_pie = Some wedges\<rparr>],
                        st1))))"

section \<open>generate_summary_report\<close>

text \<open>
  Line 307: \<open>iloc[0]\<close> and \<open>iloc[-1]\<close> are the first and the last entry of the yearly
  counts (IndexError on an empty series).
\<close>

definition trend_change :: "(int \<times> nat) list \<Rightarrow> py_error + real" where
  "trend_change yearly_trend =
     (case yearly_trend of
        [] \<Rightarrow> Inl IndexError
      | _ \<Rightarrow>
          Inr ((real (snd (last yearly_trend)) - real (snd (hd yearly_trend)))
               / real (snd (hd yearly_trend)) * 100))"

text \<open>\<open>idxmax\<close> / \<open>idxmin\<close>: the first entry whose count is the largest / smallest.\<close>

definition first_best :: "(nat \<Rightarrow> nat \<Rightarrow> bool) \<Rightarrow> (int \<times> nat) \<Rightarrow> (int \<times> nat) list \<Rightarrow> int \<times> nat" where
  "first_best better p ps = fold (\<lambda>q b. if better (snd q) (snd b) then q else b) ps p"

definition share_lines :: "nat \<Rightarrow> (string \<times> nat) list \<Rightarrow> event list" where
  "share_lines total_shootings counts =
     map (\<lambda>p. ShareLine (fst p) (snd p) (real (snd p) / real total_shootings * 100)) counts"

definition generate_summary_report :: "analysis \<Rightarrow> outcome" where
  "generate_summary_report st =
     (case shootings_data st of
        None \<Rightarrow> (Inr [Message ''Please load data first.''], st)
      | Some df \<Rightarrow>
          (let total_shootings = n_rows df
           in case year_col df of
                None \<Rightarrow> (Inl (KeyError ''year''), st)
              | Some ys \<Rightarrow>
                  (let years_covered = nunique ys
                   in if years_covered = 0 then (Inl ZeroDivisionError, st)
                      else
                        (let avg_per_year = real total_shootings / real years_covered
                         in case date_col df of
                              None \<Rightarrow> (Inl (KeyError ''date''), st)
                            | Some (ObjectCol ss) \<Rightarrow> (Inl (AttributeError ''strftime''), st)
                            | Some (DatetimeCol ds) \<Rightarrow>
                                (case (ts_min ds, ts_max ds) of
                                   (Some lo, Some hi) \<Rightarrow>
                                     (let yearly_trend = groupby_size ys
                                      in case trend_change yearly_trend of
                                           Inl e \<Rightarrow> (Inl e, st)
                                         | Inr change \<Rightarrow>
                                             (Inr ([Message (replicate 60 (CHR ''='')),
                                                    Message ''COMPREHENSIVE ANALYSIS SUMMARY'',
                                                    Message (replicate 60 (CHR ''='')),
                                                    Decorated ''OVERALL STATISTICS:'',
                                                    Overall total_shootings years_covered avg_per_year lo hi] @
                                                   (case race_col df of None \<Rightarrow> []
                                                    | Some rs \<Rightarrow>
                                                        Decorated ''DEMOGRAPHIC BREAKDOWN:'' #
                                                        share_lines total_shootings (take 5 (value_counts rs))) @
                                                   (case age_col df of None \<Rightarrow> []
                                                    | Some ages \<Rightarrow>
                                                        [Decorated ''AGE STATISTICS:'', AgeDescribe (dropna ages)]) @
                                                   (case state_col df of None \<Rightarrow> []
                                                    | Some ss \<Rightarrow>
                                                        Decorated ''TOP 5 STATES:'' #
                                                        share_lines total_shootings (take 5 (value_counts ss))) @
                                                   [Decorated ''TEMPORAL PATTERNS:'',
                                                    (case first_best (>) (hd yearly_trend) (tl yearly_trend) of
                                                       (y, c) \<Rightarrow> HighestYear y c),
                                                    (case first_best (<) (hd yearly_trend) (tl yearly_trend) of
                                                       (y, c) \<Rightarrow> LowestYear y c),
                                                    OverallTrend change,
                                                    Decorated ''IMPORTANT NOTES:'',
                                                    Decorated ''This analysis is based on reported data and may not capture all incidents'',
                                                    Decorated ''Statistical patterns do not imply causation'',
                                                    Decorated ''Further analysis with socioeconomic data would provide deeper insights'',
                                                    Decorated ''Data quality and reporting consistency may vary across jurisdictions'',
                                                    Message (replicate 60 (CHR ''=''))]),
                                              st))
                                 | _ \<Rightarrow> (Inl (ValueError ''NaTType does not support strftime''), st))))))"

section \<open>main\<close>

text \<open>
  \<open>main\<close> runs the steps in sequence; an exception that a step raises ends the run,
  leaving what was printed so far and the state the step reached.
\<close>

type_synonym run = "(event list \<times> py_error option) \<times> analysis"

definition and_then :: "run \<Rightarrow> (analysis \<Rightarrow> outcome) \<Rightarrow> run" where
  "and_then r step =
     (case r of
        ((out, Some e), st) \<Rightarrow> ((out, Some e), st)
      | ((out, None), st) \<Rightarrow>
          (case step st of
             (Inl e, st') \<Rightarrow> ((out, Some e), st')
           | (Inr out', st') \<Rightarrow> ((out @ out', None), st')))"

definition heading :: "string \<Rightarrow> analysis \<Rightarrow> outcome" where
  "heading title st =
     (Inr [Message (CHR 0x0A # replicate 50 (CHR ''='')), Message title,
           Message (replicate 50 (CHR ''=''))], st)"

definition main :: "(string \<Rightarrow> timestamp option) \<Rightarrow> (py_error + frame) \<Rightarrow> run" where
  "main parse csv =
     (let banner = [Message ''Police Fatal Shootings Analysis'', Message (replicate 50 (CHR ''=''))];
          analyzer = init
      in case load_data parse csv analyzer of
           ((out, False), st) \<Rightarrow>
             ((banner @ out @
               [Message ''Failed to load data. Please check your internet connection.''], None), st)
         | ((out, True), st) \<Rightarrow>
             and_then (and_then (and_then (and_then (and_then (and_then (and_then (and_then (and_then
               (and_then ((banner @ out, None), st)
               (heading ''BASIC STATISTICS''))
               explore_basic_statistics)
               (heading ''TEMPORAL ANALYSIS''))
               analyze_temporal_trends)
               (heading ''DEMOGRAPHIC ANALYSIS''))
               analyze_demographic_patterns)
               (heading ''GEOGRAPHIC ANALYSIS''))
               analyze_geographic_patterns)
               (heading ''SUMMARY REPORT''))
               generate_summary_report)"

section \<open>Reading the output\<close>

text \<open>What a call printed (nothing is recorded for a call that raised).\<close>

definition printed :: "outcome \<Rightarrow> event list" where
  "printed r = (case fst r of Inl e \<Rightarrow> [] | Inr out \<Rightarrow> out)"

text \<open>The exception a call raised, if any.\<close>

definition raised :: "outcome \<Rightarrow> py_error option" where
  "raised r = (case fst r of Inl e \<Rightarrow> Some e | Inr out \<Rightarrow> None)"

text \<open>The values carried by the events of one kind, in the order printed.\<close>

fun yearly_counts_printed :: "event list \<Rightarrow> (int \<times> nat) list list" where
  "yearly_counts_printed [] = []"
| "yearly_counts_printed (YearlyCounts yc # es) = yc # yearly_counts_printed es"
| "yearly_counts_printed (_ # es) = yearly_counts_printed es"

fun race_percentages_printed :: "event list \<Rightarrow> real list" where
  "race_percentages_printed [] = []"
| "race_percentages_printed (RaceLine race c pct # es) = pct # race_percentages_printed es"
| "race_percentages_printed (_ # es) = race_percentages_printed es"

fun trend_printed :: "event list \<Rightarrow> real list" where
  "trend_printed [] = []"
| "trend_printed (OverallTrend change # es) = change # trend_printed es"
| "trend_printed (_ # es) = trend_printed es"

section \<open>Example tables\<close>

definition ex_parse :: "string \<Rightarrow> timestamp option" where
  "ex_parse =
     map_of [(''2015-01-02'', Timestamp 2015 1 2), (''2015-03-10'', Timestamp 2015 3 10),
             (''2016-07-04'', Timestamp 2016 7 4), (''2017-12-31'', Timestamp 2017 12 31),
             (''2018-01-01'', Timestamp 2018 1 1), (''2018-02-06'', Timestamp 2018 2 6),
             (''2018-03-07'', Timestamp 2018 3 7), (''2018-04-05'', Timestamp 2018 4 5),
             (''2018-05-04'', Timestamp 2018 5 4), (''2018-06-02'', Timestamp 2018 6 2),
             (''2018-07-01'', Timestamp 2018 7 1), (''2018-08-06'', Timestamp 2018 8 6),
             (''2018-09-04'', Timestamp 2018 9 4), (''2018-10-03'', Timestamp 2018 10 3),
             (''2018-11-01'', Timestamp 2018 11 1), (''2018-12-07'', Timestamp 2018 12 7),
             (''2018-01-02'', Timestamp 2018 1 2), (''2018-01-03'', Timestamp 2018 1 3),
             (''2018-01-04'', Timestamp 2018 1 4), (''2018-01-05'', Timestamp 2018 1 5),
             (''2018-01-06'', Timestamp 2018 1 6), (''2018-01-07'', Timestamp 2018 1 7)]"

text \<open>A table of five incidents as \<open>read_csv\<close> delivers it, and the state after loading it.\<close>

definition ex_raw :: frame where
  "ex_raw =
     \<lparr>n_rows = 5,
      date_col = Some (ObjectCol [Some ''2015-01-02'', Some ''2015-03-10'', Some ''2016-07-04'',
                                 Some ''2016-07-04'', Some ''2017-12-31'']),
      year_col = None, month_col = None, day_of_week_col = None,
      age_col = Some [Some 30, None, Some 41, Some 25, Some 19],
      race_col = Some [Some ''W'', Some ''B'', None, Some ''W'', Some ''X''],
      gender_col = Some [Some ''M'', Some ''M'', Some ''F'', None, Some ''M''],
      armed_col = Some [Some ''gun'', None, Some ''knife'', Some ''unknown weapon'', Some ''toy weapon''],
      state_col = Some [Some ''TX'', Some ''CA'', Some ''PR'', None, Some ''DC''],
      city_col = Some [Some ''Austin'', Some ''Fresno'', Some ''San Juan'', None, Some ''Washington''],
      region_col = None\<rparr>"

definition ex_df :: frame where
  "ex_df =
     ex_raw\<lparr>date_col := Some (DatetimeCol [Some (Timestamp 2015 1 2), Some (Timestamp 2015 3 10),
                                         Some (Timestamp 2016 7 4), Some (Timestamp 2016 7 4),
                                         Some (Timestamp 2017 12 31)]),
            year_col := Some [Some 2015, Some 2015, Some 2016, Some 2016, Some 2017]\<rparr>"

definition ex_st :: analysis where
  "ex_st = init\<lparr>shootings_data := Some ex_df\<rparr>"

text \<open>A table of two incidents, the second without a date.\<close>

definition gap_raw :: frame where
  "gap_raw =
     \<lparr>n_rows = 2,
      date_col = Some (ObjectCol [Some ''2015-01-02'', None]),
      year_col = None, month_col = None, day_of_week_col = None,
      age_col = Some [Some 30, Some 52],
      race_col = Some [Some ''W'', Some ''B''],
      gender_col = Some [Some ''M'', Some ''M''],
      armed_col = Some [Some ''gun'', Some ''knife''],
      state_col = Some [Some ''TX'', Some ''CA''],
      city_col = Some [Some ''Austin'', Some ''Fresno''],
      region_col = None\<rparr>"

definition gap_df :: frame where
  "gap_df =
     gap_raw\<lparr>date_col := Some (DatetimeCol [Some (Timestamp 2015 1 2), None]),
             year_col := Some [Some 2015, None]\<rparr>"

definition gap_st :: analysis where
  "gap_st = init\<lparr>shootings_data := Some gap_df\<rparr>"

text \<open>A table of one incident, without a date.\<close>

definition undated_raw :: frame where
  "undated_raw =
     \<lparr>n_rows = 1,
      date_col = Some (ObjectCol [None]),
      year_col = None, month_col = None, day_of_week_col = None,
      age_col = Some [Some 30],
      race_col = Some [Some ''W''],
      gender_col = Some [Some ''M''],
      armed_col = Some [Some ''gun''],
      state_col = Some [Some ''TX''],
      city_col = Some [Some ''Austin''],
      region_col = None\<rparr>"

definition undated_df :: frame where
  "undated_df = undated_raw\<lparr>date_col := Some (DatetimeCol [None]), year_col := Some [None]\<rparr>"

definition undated_st :: analysis where
  "undated_st = init\<lparr>shootings_data := Some undated_df\<rparr>"

text \<open>A table without a date column, and one whose date cannot be parsed.\<close>

definition nodate_raw :: frame where
  "nodate_raw =
     \<lparr>n_rows = 1, date_col = None,
      year_col = None, month_col = None, day_of_week_col = None,
      age_col = Some [Some 30],
      race_col = Some [Some ''W''],
      gender_col = Some [Some ''M''],
      armed_col = Some [Some ''gun''],
      state_col = Some [Some ''TX''],
      city_col = Some [Some ''Austin''],
      region_col = None\<rparr>"

definition bad_raw :: frame where
  "bad_raw = nodate_raw\<lparr>date_col := Some (ObjectCol [Some ''yesterday''])\<rparr>"

text \<open>The five incidents again, in a file that already has a column called \<open>region\<close>.\<close>

definition regioned_raw :: frame where
  "regioned_raw =
     ex_raw\<lparr>region_col := Some [Some ''South'', Some ''Pacific'', Some ''Territory'', None,
                                  Some ''Capital'']\<rparr>"

definition regioned_df :: frame where
  "regioned_df =
     ex_df\<lparr>region_col := Some [Some ''South'', Some ''Pacific'', Some ''Territory'', None,
                                 Some ''Capital'']\<rparr>"

definition regioned_st :: analysis where
  "regioned_st = init\<lparr>shootings_data := Some regioned_df\<rparr>"

text \<open>An armed column with nine categories, one of them called \<open>other\<close>.\<close>

definition clash_col :: "string option list" where
  "clash_col =
     [Some ''other'', Some ''gun'', Some ''other'', Some ''gun'', Some ''knife'', Some ''gun'',
      Some ''knife'', Some ''vehicle'', Some ''toy weapon'', Some ''machete'', Some ''Taser'',
      Some ''hammer'', Some ''ax'']"

text \<open>Twelve incidents, one in every month of 2018, on all seven weekdays; only the date column.\<close>

definition year_raw :: frame where
  "year_raw =
     \<lparr>n_rows = 12,
      date_col = Some (ObjectCol
        [Some ''2018-01-01'', Some ''2018-02-06'', Some ''2018-03-07'', Some ''2018-04-05'',
         Some ''2018-05-04'', Some ''2018-06-02'', Some ''2018-07-01'', Some ''2018-08-06'',
         Some ''2018-09-04'', Some ''2018-10-03'', Some ''2018-11-01'', Some ''2018-12-07'']),
      year_col = None, month_col = None, day_of_week_col = None,
      age_col = None, race_col = None, gender_col = None, armed_col = None,
      state_col = None, city_col = None, region_col = None\<rparr>"

definition year_dates :: "timestamp option list" where
  "year_dates =
     [Some (Timestamp 2018 1 1), Some (Timestamp 2018 2 6), Some (Timestamp 2018 3 7),
      Some (Timestamp 2018 4 5), Some (Timestamp 2018 5 4), Some (Timestamp 2018 6 2),
      Some (Timestamp 2018 7 1), Some (Timestamp 2018 8 6), Some (Timestamp 2018 9 4),
      Some (Timestamp 2018 10 3), Some (Timestamp 2018 11 1), Some (Timestamp 2018 12 7)]"

definition year_df :: frame where
  "year_df =
     year_raw\<lparr>date_col := Some (DatetimeCol year_dates),
             year_col := Some (map (map_option ts_year) year_dates)\<rparr>"

definition year_st :: analysis where
  "year_st = init\<lparr>shootings_data := Some year_df\<rparr>"

text \<open>Seven incidents on the seven days from Monday 2018-01-01 to Sunday 2018-01-07.\<close>

definition week_raw :: frame where
  "week_raw =
     \<lparr>n_rows = 7,
      date_col = Some (ObjectCol
        [Some ''2018-01-01'', Some ''2018-01-02'', Some ''2018-01-03'', Some ''2018-01-04'',
         Some ''2018-01-05'', Some ''2018-01-06'', Some ''2018-01-07'']),
      year_col = None, month_col = None, day_of_week_col = None,
      age_col = None, race_col = None, gender_col = None, armed_col = None,
      state_col = None, city_col = None, region_col = None\<rparr>"

definition week_dates :: "timestamp option list" where
  "week_dates =
     [Some (Timestamp 2018 1 1), Some (Timestamp 2018 1 2), Some (Timestamp 2018 1 3),
      Some (Timestamp 2018 1 4), Some (Timestamp 2018 1 5), Some (Timestamp 2018 1 6),
      Some (Timestamp 2018 1 7)]"

definition week_df :: frame where
  "week_df =
     week_raw\<lparr>date_col := Some (DatetimeCol week_dates),
             year_col := Some (map (map_option ts_year) week_dates)\<rparr>"

definition week_st :: analysis where
  "week_st = init\<lparr>shootings_data := Some week_df\<rparr>"

section \<open>Facts about the pandas operations\<close>

lemma set_dropna: "set (dropna cs) = {x. Some x \<in> set cs}"
  by (induction cs rule: dropna.induct) auto

lemma length_dropna_le: "length (dropna cs) \<le> length cs"
  by (induction cs rule: dropna.induct) auto

lemma dropna_all_present: "None \<notin> set cs \<Longrightarrow> length (dropna cs) = length cs"
  by (induction cs rule: dropna.induct) auto

lemma dropna_map_Some: "dropna (map Some xs) = xs"
  by (induction xs) auto

lemma dropna_map_option: "dropna (map (map_option f) cs) = map f (dropna cs)"
  by (induction cs rule: dropna.induct) auto

lemma dropna_filter: "length (dropna cs) = length (filter (\<lambda>c. c \<noteq> None) cs)"
  by (induction cs rule: dropna.induct) auto

lemma set_unique: "set (unique xs) = set xs"
  by (simp add: unique_def)

lemma distinct_unique: "distinct (unique xs)"
  by (simp add: unique_def)

lemma sum_list_insort_key: "sum_list (map f (insort_key k x xs)) = f x + sum_list (map f xs)"
  for f :: "'a \<Rightarrow> 'b::comm_monoid_add"
  by (induction xs) (auto simp: add_ac)

lemma sum_list_sort_key: "sum_list (map f (sort_key k xs)) = sum_list (map f xs)"
  for f :: "'a \<Rightarrow> 'b::comm_monoid_add"
  by (induction xs) (auto simp: sum_list_insort_key)

lemma count_total: "distinct ys \<Longrightarrow> set ys = set xs \<Longrightarrow> sum_list (map (count_list xs) ys) = length xs"
  by (simp add: sum_list_distinct_conv_sum_set sum_count_set)

lemma set_value_counts: "set (value_counts col) = (\<lambda>v. (v, count_list (dropna col) v)) ` set (dropna col)"
  by (simp add: value_counts_def Let_def set_unique)

lemma fst_value_counts: "fst ` set (value_counts col) = set (dropna col)"
  by (force simp: set_value_counts)

lemma distinct_value_counts: "distinct (map fst (value_counts col))"
proof -
  let ?ys = "map (\<lambda>v. (v, count_list (dropna col) v)) (unique (dropna col))"
  have "distinct (map fst ?ys)"
    by (simp add: comp_def distinct_unique)
  then have "distinct ?ys \<and> inj_on fst (set ?ys)"
    by (simp only: distinct_map)
  then have "distinct (map fst (sort_key (\<lambda>p. - int (snd p)) ?ys))"
    by (simp only: distinct_map distinct_sort set_sort)
  then show ?thesis
    by (simp add: value_counts_def Let_def)
qed

lemma sum_value_counts: "sum_list (map snd (value_counts col)) = length (dropna col)"
  by (simp add: value_counts_def Let_def sum_list_sort_key comp_def count_total distinct_unique set_unique)

lemma pie_value_counts:
  "pie (value_counts col) =
     (if dropna col = [] then Inl (ValueError ''All wedge sizes are zero'')
      else Inr (value_counts col))"
  by (simp add: pie_def sum_value_counts)

lemma map_of_value_counts:
  "map_of (value_counts col) v = (if v \<in> set (dropna col) then Some (count_list (dropna col) v) else None)"
proof (cases "v \<in> set (dropna col)")
  case True
  then have "(v, count_list (dropna col) v) \<in> set (value_counts col)"
    by (simp add: set_value_counts)
  then show ?thesis
    using True by (simp add: map_of_is_SomeI [OF distinct_value_counts])
next
  case False
  then have "v \<notin> fst ` set (value_counts col)"
    by (simp add: fst_value_counts)
  then show ?thesis
    using False by (simp add: map_of_eq_None_iff)
qed

lemma sorted_value_counts: "sorted (map (\<lambda>p. - int (snd p)) (value_counts col))"
  by (simp add: value_counts_def Let_def)

lemma sum_groupby_size: "sum_list (map snd (groupby_size col)) = length (dropna col)"
  by (simp add: groupby_size_def Let_def comp_def count_total)

lemma keys_groupby_size: "map fst (groupby_size col) = sort (remdups (dropna col))"
  by (simp add: groupby_size_def Let_def comp_def)

lemma groupby_size_Nil: "groupby_size col = [] \<longleftrightarrow> dropna col = []"
  by (simp add: groupby_size_def Let_def) (metis length_0_conv length_sort remdups.simps(1) set_empty set_remdups)

lemma hd_sorted_Min: "sorted xs \<Longrightarrow> xs \<noteq> [] \<Longrightarrow> hd xs = Min (set xs)"
  by (cases xs) (auto intro!: Min_eqI[symmetric])

lemma last_sorted_Max: "sorted xs \<Longrightarrow> xs \<noteq> [] \<Longrightarrow> last xs = Max (set xs)"
  by (induction xs) (auto intro!: Max_eqI[symmetric] simp: )


lemma round_half_even_close: "\<bar>real_of_int (round_half_even x) - x\<bar> \<le> 1 / 2"
  unfolding round_half_even_def Let_def by (auto; linarith)

lemma round2_close: "\<bar>round2 x - x\<bar> \<le> 1 / 200"
proof -
  have "\<bar>real_of_int (round_half_even (x * 100)) - x * 100\<bar> \<le> 1 / 2"
    by (rule round_half_even_close)
  then show ?thesis
    unfolding round2_def by (simp add: field_simps abs_le_iff)
qed

lemma sum_round2_close:
  "\<bar>sum_list (map (\<lambda>x. round2 (f x)) xs) - sum_list (map f xs)\<bar> \<le> real (length xs) / 200"
proof (induction xs)
  case Nil
  then show ?case by simp
next
  case (Cons a xs)
  have "\<bar>round2 (f a) - f a\<bar> \<le> 1 / 200"
    by (rule round2_close)
  moreover have "\<bar>(round2 (f a) + s) - (f a + t)\<bar> \<le> \<bar>round2 (f a) - f a\<bar> + \<bar>s - t\<bar>" for s t :: real
    by linarith
  ultimately have "\<bar>(round2 (f a) + sum_list (map (\<lambda>x. round2 (f x)) xs)) - (f a + sum_list (map f xs))\<bar>
      \<le> 1 / 200 + real (length xs) / 200"
    using Cons.IH by (meson add_mono order_trans)
  then show ?case
    by (simp add: add_divide_distrib)
qed

lemma sum_percent:
  "sum_list (map (\<lambda>p. real (snd p) / real n * 100) ps) = real (sum_list (map snd ps)) / real n * 100"
  by (induction ps) (auto simp: add_divide_distrib distrib_right)

section \<open>Facts about the output\<close>

lemma yearly_counts_printed_append:
  "yearly_counts_printed (xs @ ys) = yearly_counts_printed xs @ yearly_counts_printed ys"
  by (induction xs rule: yearly_counts_printed.induct) auto

lemma race_percentages_printed_append:
  "race_percentages_printed (xs @ ys) = race_percentages_printed xs @ race_percentages_printed ys"
  by (induction xs rule: race_percentages_printed.induct) auto

lemma trend_printed_append:
  "trend_printed (xs @ ys) = trend_printed xs @ trend_printed ys"
  by (induction xs rule: trend_printed.induct) auto

lemma yearly_counts_printed_race_lines: "yearly_counts_printed (race_lines n rs) = []"
proof -
  have "yearly_counts_printed (map (\<lambda>p. RaceLine (fst p) (snd p) (g p)) ps) = []" for g ps
    by (induction ps) auto
  then show ?thesis by (simp add: race_lines_def)
qed

lemma race_percentages_printed_race_lines:
  "race_percentages_printed (race_lines n rs) = map (\<lambda>p. race_percentage n (snd p)) (value_counts rs)"
proof -
  have "race_percentages_printed (map (\<lambda>p. RaceLine (fst p) (snd p) (g p)) ps) = map g ps" for g ps
    by (induction ps) auto
  then show ?thesis by (simp add: race_lines_def)
qed

lemma trend_printed_share_lines: "trend_printed (share_lines n ps) = []"
  by (induction ps) (auto simp: share_lines_def)

lemma length_value_counts: "length (value_counts col) = length (remdups (dropna col))"
proof -
  have "length (remdups (rev xs)) = length (remdups xs)" for xs :: "'a list"
    by (simp add: length_remdups_card_conv)
  then show ?thesis
    by (simp add: value_counts_def Let_def unique_def)
qed

text \<open>On a loaded table \<open>explore_basic_statistics\<close> runs to its end.\<close>

lemma explore_loaded:
  assumes "shootings_data st = Some df" and "date_col df = Some (DatetimeCol ds)"
    and "year_col df = Some ys"
  shows "explore_basic_statistics st =
     (Inr ([Message ''=== BASIC DATASET OVERVIEW ==='',
            DatasetShape (n_rows df),
            DateRange (ts_min ds) (ts_max ds),
            Message (CHR 0x0A # ''=== YEARLY TRENDS ===''),
            YearlyCounts (groupby_size ys),
            Message (CHR 0x0A # ''=== RACE/ETHNICITY BREAKDOWN ==='')] @
           (case race_col df of None \<Rightarrow> [] | Some rs \<Rightarrow> race_lines (n_rows df) rs) @
           [Message (CHR 0x0A # ''=== AGE STATISTICS ==='')] @
           (case age_col df of None \<Rightarrow> [] | Some ages \<Rightarrow> [AgeDescribe (dropna ages)]) @
           [Message (CHR 0x0A # ''=== GEOGRAPHIC DISTRIBUTION (Top 10 States) ==='')] @
           (case state_col df of None \<Rightarrow> []
            | Some ss \<Rightarrow> [StateCounts (take 10 (value_counts ss))])), st)"
  using assms by (simp add: explore_basic_statistics_def)

lemma loaded_cols:
  assumes "loaded df"
  obtains ds where "date_col df = Some (DatetimeCol ds)"
    and "year_col df = Some (map (map_option ts_year) ds)" and "length ds = n_rows df"
  using assms
  by (auto simp: loaded_def wf_frame_def date_cells_def split: option.splits date_column.splits)

lemma loaded_ex_df: "loaded ex_df"
  by (simp add: loaded_def wf_frame_def ex_df_def ex_raw_def col_ok_def date_cells_def)

lemma load_ex_raw: "snd (fst (load_data ex_parse (Inr ex_raw) init)) \<and> snd (load_data ex_parse (Inr ex_raw) init) = ex_st"
  by (simp add: load_data_def to_datetime_def ex_parse_def ex_raw_def ex_df_def ex_st_def init_def Let_def)

lemma load_gap_raw: "snd (fst (load_data ex_parse (Inr gap_raw) init)) \<and> snd (load_data ex_parse (Inr gap_raw) init) = gap_st"
  by (simp add: load_data_def to_datetime_def ex_parse_def gap_raw_def gap_df_def gap_st_def init_def Let_def)

text \<open>A table that \<open>load_data\<close> has loaded from a well-formed table is a loaded table.\<close>

lemma to_datetime_length: "to_datetime parse c = Inr ds \<Longrightarrow> length ds = date_cells c"
  by (cases c) (auto simp: to_datetime_def date_cells_def split: if_splits)

lemma load_data_loaded:
  assumes "wf_frame raw" and "load_data parse (Inr raw) st = ((out, True), st')"
  shows "\<exists>df. shootings_data st' = Some df \<and> loaded df \<and> n_rows df = n_rows raw"
proof -
  from assms(2) obtain c ds where c: "date_col raw = Some c" and ds: "to_datetime parse c = Inr ds"
    and st': "st' = st\<lparr>shootings_data := Some (raw\<lparr>date_col := Some (DatetimeCol ds),
                year_col := Some (map (map_option ts_year) ds)\<rparr>)\<rparr>"
    by (auto simp: load_data_def Let_def split: option.splits sum.splits)
  from assms(1) c have "date_cells c = n_rows raw"
    by (simp add: wf_frame_def)
  with to_datetime_length [OF ds] have "length ds = n_rows raw"
    by simp
  with assms(1) have "loaded (raw\<lparr>date_col := Some (DatetimeCol ds),
                year_col := Some (map (map_option ts_year) ds)\<rparr>)"
    by (simp add: loaded_def wf_frame_def col_ok_def date_cells_def)
  with st' show ?thesis
    by simp
qed

lemma race_percentages_printed_explore:
  assumes "shootings_data st = Some df" and "date_col df = Some (DatetimeCol ds)"
    and "year_col df = Some ys" and "race_col df = Some rs"
  obtains out where "explore_basic_statistics st = (Inr out, st)"
    and "race_percentages_printed out = map (\<lambda>p. race_percentage (n_rows df) (snd p)) (value_counts rs)"
  using assms(4)
  by (simp add: explore_loaded [OF assms(1-3)] race_percentages_printed_append
      race_percentages_printed_race_lines split: option.splits)

lemma loaded_gap_df: "loaded gap_df"
  by (simp add: loaded_def wf_frame_def gap_df_def gap_raw_def col_ok_def date_cells_def)

lemma nunique_0: "nunique col = 0 \<longleftrightarrow> dropna col = []"
  by (simp add: nunique_def)

lemma ts_min_Some: "dropna ds \<noteq> [] \<Longrightarrow> \<exists>lo. ts_min ds = Some lo"
  by (cases "dropna ds") (auto simp: ts_min_def)

lemma ts_max_Some: "dropna ds \<noteq> [] \<Longrightarrow> \<exists>hi. ts_max ds = Some hi"
  by (cases "dropna ds") (auto simp: ts_max_def)

lemma hd_groupby_size:
  assumes "dropna col \<noteq> []"
  shows "hd (groupby_size col) = (Min (set (dropna col)), count_list (dropna col) (Min (set (dropna col))))"
proof -
  let ?ks = "sort (remdups (dropna col))"
  from assms have ne: "?ks \<noteq> []"
    by (metis length_0_conv length_sort remdups_eq_nil_iff)
  then have "hd ?ks = Min (set ?ks)"
    by (intro hd_sorted_Min) simp_all
  with ne show ?thesis
    by (simp add: groupby_size_def Let_def hd_map)
qed

lemma last_groupby_size:
  assumes "dropna col \<noteq> []"
  shows "last (groupby_size col) = (Max (set (dropna col)), count_list (dropna col) (Max (set (dropna col))))"
proof -
  let ?ks = "sort (remdups (dropna col))"
  from assms have ne: "?ks \<noteq> []"
    by (metis length_0_conv length_sort remdups_eq_nil_iff)
  then have "last ?ks = Max (set ?ks)"
    by (intro last_sorted_Max) simp_all
  with ne show ?thesis
    by (simp add: groupby_size_def Let_def last_map)
qed

lemma trend_change_nonempty:
  "g \<noteq> [] \<Longrightarrow>
   trend_change g = Inr ((real (snd (last g)) - real (snd (hd g))) / real (snd (hd g)) * 100)"
  unfolding trend_change_def by (cases g) simp_all

lemma trend_change_groupby:
  assumes "dropna col \<noteq> []"
  shows "trend_change (groupby_size col) =
     Inr ((real (count_list (dropna col) (Max (set (dropna col))))
           - real (count_list (dropna col) (Min (set (dropna col)))))
          / real (count_list (dropna col) (Min (set (dropna col)))) * 100)"
proof -
  from assms have "groupby_size col \<noteq> []"
    by (simp add: groupby_size_Nil)
  then have "trend_change (groupby_size col) =
      Inr ((real (snd (last (groupby_size col))) - real (snd (hd (groupby_size col))))
           / real (snd (hd (groupby_size col))) * 100)"
    by (rule trend_change_nonempty)
  then show ?thesis
    by (simp add: hd_groupby_size [OF assms] last_groupby_size [OF assms])
qed

lemma summary_trend_printed:
  assumes "shootings_data st = Some df" and "date_col df = Some (DatetimeCol ds)"
    and "year_col df = Some ys" and "dropna ys \<noteq> []" and "dropna ds \<noteq> []"
    and "trend_change (groupby_size ys) = Inr change"
  obtains out where "generate_summary_report st = (Inr out, st)" and "trend_printed out = [change]"
proof -
  from assms(5) obtain lo hi where "ts_min ds = Some lo" and "ts_max ds = Some hi"
    using ts_min_Some ts_max_Some by blast
  with assms that show ?thesis
    by (simp add: generate_summary_report_def Let_def nunique_0 trend_printed_append
        trend_printed_share_lines split: option.splits prod.splits)
qed

section \<open>What the methods do to the object\<close>

lemma explore_state: "snd (explore_basic_statistics st) = st"
  by (simp add: explore_basic_statistics_def split: option.splits date_column.splits sum.splits)

lemma summary_state: "snd (generate_summary_report st) = st"
  by (simp add: generate_summary_report_def Let_def split: option.splits date_column.splits sum.splits prod.splits)

lemma demographic_state: "snd (analyze_demographic_patterns st) = st"
  by (simp add: analyze_demographic_patterns_def split: option.splits sum.splits)

lemma temporal_state:
  assumes "shootings_data st = Some df"
  shows "\<exists>m d. snd (analyze_temporal_trends st) =
           st\<lparr>shootings_data := Some (df\<lparr>month_col := m, day_of_week_col := d\<rparr>)\<rparr>"
proof -
  have same: "st = st\<lparr>shootings_data := Some (df\<lparr>month_col := month_col df, day_of_week_col := day_of_week_col df\<rparr>)\<rparr>"
    using assms by simp
  have "snd (analyze_temporal_trends st) = st \<or>
        (\<exists>m. snd (analyze_temporal_trends st) = st\<lparr>shootings_data := Some (df\<lparr>month_col := m\<rparr>)\<rparr>) \<or>
        (\<exists>m d. snd (analyze_temporal_trends st) = st\<lparr>shootings_data := Some (df\<lparr>month_col := m, day_of_week_col := d\<rparr>)\<rparr>)"
    using assms
    by (auto simp: analyze_temporal_trends_def Let_def split: option.splits date_column.splits sum.splits)
  then show ?thesis
  proof (elim disjE exE)
    assume "snd (analyze_temporal_trends st) = st"
    with same show ?thesis by metis
  next
    fix m
    assume "snd (analyze_temporal_trends st) = st\<lparr>shootings_data := Some (df\<lparr>month_col := m\<rparr>)\<rparr>"
    moreover have "df\<lparr>month_col := m\<rparr> = df\<lparr>month_col := m, day_of_week_col := day_of_week_col df\<rparr>"
      by simp
    ultimately show ?thesis by metis
  next
    fix m d
    assume "snd (analyze_temporal_trends st) = st\<lparr>shootings_data := Some (df\<lparr>month_col := m, day_of_week_col := d\<rparr>)\<rparr>"
    then show ?thesis by blast
  qed
qed

lemma geographic_state:
  assumes "shootings_data st = Some df"
  shows "\<exists>r. snd (analyze_geographic_patterns st) = st\<lparr>shootings_data := Some (df\<lparr>region_col := r\<rparr>)\<rparr>"
proof (cases "state_col df")
  case None
  from assms have "st = st\<lparr>shootings_data := Some (df\<lparr>region_col := region_col df\<rparr>)\<rparr>"
    by simp
  moreover from None assms have "snd (analyze_geographic_patterns st) = st"
    by (simp add: analyze_geographic_patterns_def)
  ultimately show ?thesis
    by metis
next
  case (Some ss)
  with assms show ?thesis
    by (auto simp: analyze_geographic_patterns_def Let_def split: sum.splits)
qed

section \<open>Facts about the region table and the comparison table\<close>

lemma fold_upd_apply:
  "fold (\<lambda>state d'. d'(state \<mapsto> region)) states d s =
     (if s \<in> set states then Some region else d s)"
  for d :: "string \<rightharpoonup> string"
  by (induction states arbitrary: d) auto

lemma fold_regions_notin:
  fixes rm :: "(string \<times> string list) list" and d :: "string \<rightharpoonup> string"
  assumes "s \<notin> set (concat (map snd rm))"
  shows "fold (\<lambda>(region, states) d. fold (\<lambda>state d'. d'(state \<mapsto> region)) states d) rm d s = d s"
  using assms
  by (induction rm arbitrary: d) (auto simp: fold_upd_apply)

lemma fold_regions_member:
  fixes rm :: "(string \<times> string list) list" and d :: "string \<rightharpoonup> string"
  assumes "distinct (concat (map snd rm))" and "(region, states) \<in> set rm" and "s \<in> set states"
  shows "fold (\<lambda>(region, states) d. fold (\<lambda>state d'. d'(state \<mapsto> region)) states d) rm d s = Some region"
  using assms
proof (induction rm arbitrary: d)
  case Nil
  then show ?case by simp
next
  case (Cons p rm)
  from Cons.prems(1) have dist: "distinct (concat (map snd rm))"
    and disj: "set (snd p) \<inter> set (concat (map snd rm)) = {}"
    by simp_all
  show ?case
  proof (cases "p = (region, states)")
    case True
    with disj Cons.prems(3) have "s \<notin> set (concat (map snd rm))"
      by auto
    then have "fold (\<lambda>(region, states) d. fold (\<lambda>state d'. d'(state \<mapsto> region)) states d) rm
          (fold (\<lambda>state d'. d'(state \<mapsto> region)) states d) s
        = fold (\<lambda>state d'. d'(state \<mapsto> region)) states d s"
      by (rule fold_regions_notin)
    also have "\<dots> = Some region"
      using Cons.prems(3) by (simp only: fold_upd_apply if_True)
    finally show ?thesis
      by (simp only: True fold_Cons comp_def split_conv)
  next
    case False
    with Cons.prems(2) have "(region, states) \<in> set rm"
      by simp
    from Cons.IH [OF dist this Cons.prems(3)] show ?thesis
      by (cases p) simp
  qed
qed

lemma distinct_region_states: "distinct (concat (map snd region_mapping))"
  by (simp add: region_mapping_def)

lemma state_to_region_member:
  "(region, states) \<in> set region_mapping \<Longrightarrow> s \<in> set states \<Longrightarrow> state_to_region s = Some region"
  unfolding state_to_region_def by (rule fold_regions_member [OF distinct_region_states])

lemma state_to_region_notin:
  "s \<notin> set (concat (map snd region_mapping)) \<Longrightarrow> state_to_region s = None"
  unfolding state_to_region_def by (simp add: fold_regions_notin)

lemma dom_state_to_region: "dom state_to_region = set (concat (map snd region_mapping))"
proof (intro equalityI subsetI)
  fix s assume "s \<in> dom state_to_region"
  then show "s \<in> set (concat (map snd region_mapping))"
    using state_to_region_notin by (cases "s \<in> set (concat (map snd region_mapping))") auto
next
  fix s assume "s \<in> set (concat (map snd region_mapping))"
  then obtain region states where "(region, states) \<in> set region_mapping" and "s \<in> set states"
    by auto
  then show "s \<in> dom state_to_region"
    by (auto dest: state_to_region_member)
qed

lemma count_dropna_bind:
  "count_list (dropna (map (\<lambda>cell. Option.bind cell f) ss)) g =
     length (filter (\<lambda>cell. Option.bind cell f = Some g) ss)"
proof (induction ss)
  case Nil
  then show ?case by simp
next
  case (Cons c ss)
  show ?case
  proof (cases c)
    case None
    with Cons show ?thesis by simp
  next
    case (Some x)
    with Cons show ?thesis by (cases "f x") auto
  qed
qed

lemma length_dropna_bind:
  "length (dropna (map (\<lambda>cell. Option.bind cell f) ss)) =
     length (filter (\<lambda>cell. Option.bind cell f \<noteq> None) ss)"
proof (induction ss)
  case Nil
  then show ?case by simp
next
  case (Cons c ss)
  show ?case
  proof (cases c)
    case None
    with Cons show ?thesis by simp
  next
    case (Some x)
    with Cons show ?thesis by (cases "f x") auto
  qed
qed

lemma count_region_of:
  "count_list (dropna (region_of ss)) g = length (filter (\<lambda>cell. Option.bind cell state_to_region = Some g) ss)"
  unfolding region_of_def by (rule count_dropna_bind)

lemma length_dropna_region_of:
  "length (dropna (region_of ss)) = length (filter (\<lambda>cell. Option.bind cell state_to_region \<noteq> None) ss)"
  unfolding region_of_def by (rule length_dropna_bind)

lemma comparison_loop_races:
  "map Race (comparison_loop t ps) = filter (\<lambda>r. map_of us_population_race r \<noteq> None) (map fst ps)"
  by (induction t ps rule: comparison_loop.induct) (auto simp: Let_def split: option.splits)

lemma comparison_loop_row:
  assumes "row \<in> set (comparison_loop t ps)"
  shows "\<exists>c. (Race row, c) \<in> set ps \<and>
           map_of us_population_race (Race row) = Some (Population_Rate row) \<and>
           Shooting_Rate row = real c / real t * 100 \<and>
           Ratio row = Shooting_Rate row / Population_Rate row"
  using assms
  by (induction t ps rule: comparison_loop.induct) (auto simp: Let_def split: option.splits)

lemma comparison_data_nonempty: "comparison_data rs \<noteq> [] \<Longrightarrow> dropna rs \<noteq> []"
  by (auto simp: comparison_data_def value_counts_def unique_def)

lemma race_panels_nonempty:
  "comparison_data rs \<noteq> [] \<Longrightarrow> race_panels rs = Inr (value_counts rs, comparison_data rs)"
  by (simp add: race_panels_def pie_value_counts comparison_data_nonempty)

lemma region_counts_nonempty:
  "dropna (region_of ss) \<noteq> [] \<longleftrightarrow> (\<exists>cell \<in> set ss. Option.bind cell state_to_region \<noteq> None)"
proof -
  have "dropna (region_of ss) \<noteq> [] \<longleftrightarrow> filter (\<lambda>cell. Option.bind cell state_to_region \<noteq> None) ss \<noteq> []"
    using length_dropna_region_of [of ss] by (metis length_0_conv)
  then show ?thesis
    by (simp add: filter_empty_conv)
qed

section \<open>Facts about the armed-status chart\<close>

lemma setitem_new: "l \<notin> fst ` set s \<Longrightarrow> setitem s l v = s @ [(l, v)]"
  by (simp add: setitem_def)

lemma armed_chart_without_clash:
  assumes "''other'' \<notin> fst ` set (take 8 (value_counts (map Some (armed_simplified col))))"
  shows "armed_chart col =
     take 8 (value_counts (map Some (armed_simplified col))) @
     (if 0 < sum_list (map snd (drop 8 (value_counts (map Some (armed_simplified col)))))
      then [(''other'', sum_list (map snd (drop 8 (value_counts (map Some (armed_simplified col))))))]
      else [])"
proof (cases "0 < sum_list (map snd (drop 8 (value_counts (map Some (armed_simplified col)))))")
  case True
  then show ?thesis
    unfolding armed_chart_def Let_def setitem_new [OF assms] by (simp only: if_True)
next
  case False
  then show ?thesis
    unfolding armed_chart_def Let_def by (simp only: if_False append_Nil2)
qed

lemma value_counts_descending:
  assumes "p \<in> set (take n (value_counts col))" and "q \<in> set (drop n (value_counts col))"
  shows "snd q \<le> snd p"
proof -
  have "sorted (map (\<lambda>p. - int (snd p)) (take n (value_counts col) @ drop n (value_counts col)))"
    by (simp only: append_take_drop_id sorted_value_counts)
  then have "\<forall>x \<in> set (map (\<lambda>p. - int (snd p)) (take n (value_counts col))).
             \<forall>y \<in> set (map (\<lambda>p. - int (snd p)) (drop n (value_counts col))). x \<le> y"
    unfolding map_append sorted_append by blast
  with assms have "- int (snd p) \<le> - int (snd q)"
    by (simp only: set_map) blast
  then show ?thesis by simp
qed

lemma demographic_armed_bars:
  assumes "shootings_data st = Some df"
    and "analyze_demographic_patterns st = (Inr [ShowDemographic fig], st')"
  shows "armed_bars fig = map_option armed_chart (armed_col df)"
  using assms by (auto simp: analyze_demographic_patterns_def split: option.splits sum.splits)

section \<open>Facts about analyze_temporal_trends\<close>

lemma bar_months: "(\<exists>r. bar [1..<13] hs = Inr r) \<longleftrightarrow> length hs = 12 \<or> length hs = 1"
  by (simp add: bar_def)

lemma bar_days: "length hs = 7 \<Longrightarrow> bar [0..<7] hs = Inr (zip [0..<7] hs)"
  by (simp add: bar_def)

lemma getitems_present:
  "set ls \<subseteq> fst ` set s \<Longrightarrow> getitems s ls = Inr (map (\<lambda>l. (l, the (map_of s l))) ls)"
proof (induction ls)
  case Nil
  then show ?case by simp
next
  case (Cons l ls)
  then obtain c where "map_of s l = Some c"
    by (cases "map_of s l") (auto simp: map_of_eq_None_iff)
  with Cons show ?case by simp
qed

lemma getitems_absent:
  "\<not> set ls \<subseteq> fst ` set s \<Longrightarrow> \<exists>e. getitems s ls = Inl e"
proof (induction ls)
  case Nil
  then show ?case by simp
next
  case (Cons l ls)
  show ?case
  proof (cases "map_of s l")
    case None
    then show ?thesis by simp
  next
    case (Some c)
    then have "l \<in> fst ` set s"
      by (metis map_of_eq_None_iff option.distinct(1))
    with Cons.prems have "\<not> set ls \<subseteq> fst ` set s"
      by simp
    from Cons.IH [OF this] Some show ?thesis
      by auto
  qed
qed

lemma getitems_value_counts:
  assumes "set ls \<subseteq> set (dropna col)"
  shows "getitems (value_counts col) ls = Inr (map (\<lambda>l. (l, count_list (dropna col) l)) ls)"
proof -
  from assms have "getitems (value_counts col) ls
      = Inr (map (\<lambda>l. (l, the (map_of (value_counts col) l))) ls)"
    by (intro getitems_present) (simp add: fst_value_counts)
  also from assms have "map (\<lambda>l. (l, the (map_of (value_counts col) l))) ls
      = map (\<lambda>l. (l, count_list (dropna col) l)) ls"
    by (auto simp: map_of_value_counts)
  finally show ?thesis .
qed

lemma length_groupby_size: "length (groupby_size col) = card (set (dropna col))"
  by (simp add: groupby_size_def Let_def length_remdups_card_conv)

lemma temporal_success:
  assumes "shootings_data st = Some df" and "date_col df = Some (DatetimeCol ds)"
    and "year_col df = Some ys"
    and "bar [1..<13] (map snd (groupby_size (map (map_option ts_month) ds))) = Inr mbars"
    and "set day_order \<subseteq> set (dropna (map (map_option day_name) ds))"
  shows "analyze_temporal_trends st =
     (Inr [ShowTemporal
            \<lparr>yearly_line = groupby_size ys,
             monthly_bars = mbars,
             day_bars = zip [0..<7] (map (count_list (dropna (map (map_option day_name) ds))) day_order),
             day_ticklabels = map (take 3) day_order,
             age_hist = map_option dropna (age_col df)\<rparr>],
      st\<lparr>shootings_data := Some (df\<lparr>month_col := Some (map (map_option ts_month) ds),
                                     day_of_week_col := Some (map (map_option day_name) ds)\<rparr>)\<rparr>)"
proof -
  have len: "length (map (count_list (dropna (map (map_option day_name) ds))) day_order) = 7"
    by (simp add: day_order_def)
  show ?thesis
    using assms(1-4)
    by (simp add: analyze_temporal_trends_def Let_def getitems_value_counts [OF assms(5)]
        comp_def bar_days [OF len])
qed

lemma temporal_fails_months:
  assumes "shootings_data st = Some df" and "date_col df = Some (DatetimeCol ds)"
    and "year_col df = Some ys"
    and "bar [1..<13] (map snd (groupby_size (map (map_option ts_month) ds))) = Inl e"
  shows "fst (analyze_temporal_trends st) = Inl e"
  using assms by (simp add: analyze_temporal_trends_def Let_def)

lemma temporal_fails_days:
  assumes "shootings_data st = Some df" and "date_col df = Some (DatetimeCol ds)"
    and "year_col df = Some ys"
    and "\<not> set day_order \<subseteq> set (dropna (map (map_option day_name) ds))"
  shows "\<exists>e. fst (analyze_temporal_trends st) = Inl e"
proof -
  from assms(4) obtain e where "getitems (value_counts (map (map_option day_name) ds)) day_order = Inl e"
    using getitems_absent [of day_order "value_counts (map (map_option day_name) ds)"]
    by (auto simp: fst_value_counts)
  with assms(1-3) show ?thesis
    by (cases "bar [1..<13] (map snd (groupby_size (map (map_option ts_month) ds)))")
       (simp_all add: analyze_temporal_trends_def Let_def)
qed

lemma loaded_year_df: "loaded year_df"
  by (simp add: loaded_def wf_frame_def year_df_def year_raw_def year_dates_def col_ok_def date_cells_def)

lemma load_year_raw:
  "snd (fst (load_data ex_parse (Inr year_raw) init)) \<and> snd (load_data ex_parse (Inr year_raw) init) = year_st"
  by (simp add: load_data_def to_datetime_def ex_parse_def year_raw_def year_df_def year_dates_def
      year_st_def init_def Let_def)

lemma load_week_raw:
  "snd (fst (load_data ex_parse (Inr week_raw) init)) \<and> snd (load_data ex_parse (Inr week_raw) init) = week_st"
  by (simp add: load_data_def to_datetime_def ex_parse_def week_raw_def week_df_def week_dates_def
      week_st_def init_def Let_def)

lemma day_names_year:
  "map (map_option day_name) year_dates =
     [Some ''Monday'', Some ''Tuesday'', Some ''Wednesday'', Some ''Thursday'', Some ''Friday'',
      Some ''Saturday'', Some ''Sunday'', Some ''Monday'', Some ''Tuesday'', Some ''Wednesday'',
      Some ''Thursday'', Some ''Friday'']"
  by (simp add: year_dates_def day_name_def days_from_civil_def day_order_def)

lemma day_names_week:
  "map (map_option day_name) week_dates =
     [Some ''Monday'', Some ''Tuesday'', Some ''Wednesday'', Some ''Thursday'', Some ''Friday'',
      Some ''Saturday'', Some ''Sunday'']"
  by (simp add: week_dates_def day_name_def days_from_civil_def day_order_def)

section \<open>The claims\<close>

text \<open>
  C3 (as amended).  On a loaded table the yearly counts that \<open>explore_basic_statistics\<close>
  computes and prints sum to the number of rows whose date is present, because the
  group-by drops the rows without a year.  The sum is the total number of rows when no
  date is missing.
\<close>

theorem yearly_counts_sum:
  assumes "shootings_data st = Some df" and "loaded df"
  shows "\<exists>out ds ys. explore_basic_statistics st = (Inr out, st) \<and>
           date_col df = Some (DatetimeCol ds) \<and> year_col df = Some ys \<and>
           yearly_counts_printed out = [groupby_size ys] \<and>
           sum_list (map snd (groupby_size ys)) = length (dropna ds) \<and>
           (None \<notin> set ds \<longrightarrow> sum_list (map snd (groupby_size ys)) = n_rows df)"
proof -
  from assms(2) obtain ds where ds: "date_col df = Some (DatetimeCol ds)"
    and ys: "year_col df = Some (map (map_option ts_year) ds)" and len: "length ds = n_rows df"
    by (rule loaded_cols)
  let ?ys = "map (map_option ts_year) ds"
  obtain out where out: "explore_basic_statistics st = (Inr out, st)"
    and yc: "yearly_counts_printed out = [groupby_size ?ys]"
    by (simp add: explore_loaded [OF assms(1) ds ys] yearly_counts_printed_append
        yearly_counts_printed_race_lines split: option.splits)
  have sum: "sum_list (map snd (groupby_size ?ys)) = length (dropna ds)"
    by (simp add: sum_groupby_size dropna_map_option)
  with out yc len ds ys show ?thesis
    by (auto simp: dropna_all_present)
qed

theorem yearly_counts_sum_witness:
  "shootings_data ex_st = Some ex_df \<and> loaded ex_df \<and> n_rows ex_df = 5 \<and>
   (\<exists>out. explore_basic_statistics ex_st = (Inr out, ex_st) \<and>
          yearly_counts_printed out = [[(2015, 2), (2016, 2), (2017, 1)]])"
proof -
  have st: "shootings_data ex_st = Some ex_df"
    by (simp add: ex_st_def)
  from yearly_counts_sum [OF st loaded_ex_df] obtain out ys
    where out: "explore_basic_statistics ex_st = (Inr out, ex_st)"
      and ys: "year_col ex_df = Some ys"
      and yc: "yearly_counts_printed out = [groupby_size ys]"
    by blast
  from ys have "groupby_size ys = [(2015, 2), (2016, 2), (2017, 1)]"
    by (auto simp: ex_df_def groupby_size_def)
  with st out yc loaded_ex_df show ?thesis
    by (simp add: ex_df_def ex_raw_def)
qed

text \<open>
  C3 as stated fails on a table with a missing date: the two-row table \<open>gap_raw\<close> loads,
  and the yearly counts printed for it sum to 1.
\<close>

theorem yearly_counts_counterexample:
  "snd (fst (load_data ex_parse (Inr gap_raw) init)) \<and>
   snd (load_data ex_parse (Inr gap_raw) init) = gap_st \<and>
   shootings_data gap_st = Some gap_df \<and> n_rows gap_df = 2 \<and>
   yearly_counts_printed (printed (explore_basic_statistics gap_st)) = [[(2015, 1)]]"
  by (simp add: load_gap_raw)
     (simp add: gap_st_def gap_df_def gap_raw_def init_def explore_basic_statistics_def
        printed_def groupby_size_def race_lines_def value_counts_def unique_def)

text \<open>
  C1 (as amended).  On a loaded table in which at least one row has a date,
  \<open>generate_summary_report\<close> returns, and the trend it prints is the number of incidents
  in the last year minus the number in the first year, divided by the number in the
  first year, times 100; first and last year being the least and the greatest year
  present in the data.
\<close>

theorem summary_trend_change:
  assumes "shootings_data st = Some df" and "loaded df" and "year_col df = Some ys"
    and "dropna ys \<noteq> []"
  shows "\<exists>out. generate_summary_report st = (Inr out, st) \<and>
           trend_printed out =
             [(real (count_list (dropna ys) (Max (set (dropna ys))))
               - real (count_list (dropna ys) (Min (set (dropna ys)))))
              / real (count_list (dropna ys) (Min (set (dropna ys)))) * 100]"
proof -
  from assms(2) obtain ds where ds: "date_col df = Some (DatetimeCol ds)"
    and ys: "year_col df = Some (map (map_option ts_year) ds)"
    by (rule loaded_cols)
  from ys assms(3,4) have "dropna ds \<noteq> []"
    by (auto simp: dropna_map_option)
  from summary_trend_printed [OF assms(1) ds assms(3,4) this trend_change_groupby [OF assms(4)]]
  show ?thesis
    by blast
qed


theorem summary_trend_change_witness:
  "shootings_data ex_st = Some ex_df \<and> loaded ex_df \<and>
   year_col ex_df = Some [Some 2015, Some 2015, Some 2016, Some 2016, Some 2017] \<and>
   (\<exists>out. generate_summary_report ex_st = (Inr out, ex_st) \<and> trend_printed out = [(1 - 2) / 2 * 100])"
proof -
  have st: "shootings_data ex_st = Some ex_df"
    by (simp add: ex_st_def)
  have ys: "year_col ex_df = Some [Some 2015, Some 2015, Some 2016, Some 2016, Some 2017]"
    by (simp add: ex_df_def)
  from summary_trend_change [OF st loaded_ex_df ys] st ys loaded_ex_df show ?thesis
    by simp
qed

text \<open>
  C1 as stated fails on a non-empty table in which no row has a date: the one-row table
  \<open>undated_raw\<close> loads, \<open>years_covered\<close> is 0, and the report raises ZeroDivisionError
  on line 276 before any trend is printed.
\<close>

theorem summary_trend_change_counterexample:
  "snd (fst (load_data ex_parse (Inr undated_raw) init)) \<and>
   snd (load_data ex_parse (Inr undated_raw) init) = undated_st \<and>
   shootings_data undated_st = Some undated_df \<and> n_rows undated_df = 1 \<and>
   raised (generate_summary_report undated_st) = Some ZeroDivisionError \<and>
   trend_printed (printed (generate_summary_report undated_st)) = []"
  by (simp add: load_data_def to_datetime_def undated_raw_def undated_df_def undated_st_def
      init_def Let_def generate_summary_report_def nunique_def raised_def printed_def)

text \<open>
  C2 (as amended).  On a loaded table with at least one row, the race percentages that
  \<open>explore_basic_statistics\<close> prints sum to the share of rows whose race is present
  (100 times their number over the number of all rows), up to the rounding of each
  percentage to two decimals: the counts leave out the rows without a race, the divisor
  is the number of all rows.  The sum is approximately 100 when no race is missing.
\<close>

theorem race_percentages_sum:
  assumes "shootings_data st = Some df" and "loaded df" and "race_col df = Some rs"
    and "0 < n_rows df"
  shows "\<exists>out. explore_basic_statistics st = (Inr out, st) \<and>
           \<bar>sum_list (race_percentages_printed out) - 100 * real (length (dropna rs)) / real (n_rows df)\<bar>
             \<le> real (length (remdups (dropna rs))) / 200 \<and>
           (None \<notin> set rs \<longrightarrow>
              \<bar>sum_list (race_percentages_printed out) - 100\<bar> \<le> real (length (remdups (dropna rs))) / 200)"
proof -
  from assms(2) obtain ds where ds: "date_col df = Some (DatetimeCol ds)"
    and ys: "year_col df = Some (map (map_option ts_year) ds)"
    by (rule loaded_cols)
  obtain out where out: "explore_basic_statistics st = (Inr out, st)"
    and pcts: "race_percentages_printed out = map (\<lambda>p. race_percentage (n_rows df) (snd p)) (value_counts rs)"
    by (rule race_percentages_printed_explore [OF assms(1) ds ys assms(3)])
  let ?f = "\<lambda>p::string \<times> nat. real (snd p) / real (n_rows df) * 100"
  have "sum_list (map ?f (value_counts rs))
      = real (sum_list (map snd (value_counts rs))) / real (n_rows df) * 100"
    by (rule sum_percent)
  then have exact: "sum_list (map ?f (value_counts rs)) = 100 * real (length (dropna rs)) / real (n_rows df)"
    by (simp only: sum_value_counts) simp
  have "\<bar>sum_list (map (\<lambda>p. round2 (?f p)) (value_counts rs)) - sum_list (map ?f (value_counts rs))\<bar>
      \<le> real (length (value_counts rs)) / 200"
    by (rule sum_round2_close)
  then have "\<bar>sum_list (map (\<lambda>p. round2 (?f p)) (value_counts rs)) - 100 * real (length (dropna rs)) / real (n_rows df)\<bar>
      \<le> real (length (remdups (dropna rs))) / 200"
    by (simp only: exact length_value_counts)
  moreover have "race_percentages_printed out = map (\<lambda>p. round2 (?f p)) (value_counts rs)"
    by (simp only: pcts race_percentage_def)
  ultimately have close: "\<bar>sum_list (race_percentages_printed out) - 100 * real (length (dropna rs)) / real (n_rows df)\<bar>
      \<le> real (length (remdups (dropna rs))) / 200"
    by (simp only:)
  have "100 * real (length (dropna rs)) / real (n_rows df) = 100" if "None \<notin> set rs"
  proof -
    from assms(2,3) have "length rs = n_rows df"
      by (simp add: loaded_def wf_frame_def col_ok_def)
    with that assms(4) show ?thesis
      by (simp add: dropna_all_present)
  qed
  with out close show ?thesis
    by auto
qed


theorem race_percentages_sum_witness:
  "shootings_data gap_st = Some gap_df \<and> loaded gap_df \<and>
   race_col gap_df = Some [Some ''W'', Some ''B''] \<and> 0 < n_rows gap_df \<and>
   (\<exists>out. explore_basic_statistics gap_st = (Inr out, gap_st) \<and>
          \<bar>sum_list (race_percentages_printed out) - 100\<bar> \<le> 1 / 100)"
proof -
  have st: "shootings_data gap_st = Some gap_df"
    by (simp add: gap_st_def)
  have rs: "race_col gap_df = Some [Some ''W'', Some ''B'']"
    by (simp add: gap_df_def gap_raw_def)
  have n: "0 < n_rows gap_df"
    by (simp add: gap_df_def gap_raw_def)
  from race_percentages_sum [OF st loaded_gap_df rs n] st rs n loaded_gap_df show ?thesis
    by auto
qed

text \<open>
  C2 as stated fails on a table with a missing race: for the five rows of \<open>ex_raw\<close>,
  one of them without a race, the percentages printed are 40, 20 and 20.
\<close>

theorem race_percentages_counterexample:
  "snd (fst (load_data ex_parse (Inr ex_raw) init)) \<and>
   snd (load_data ex_parse (Inr ex_raw) init) = ex_st \<and>
   shootings_data ex_st = Some ex_df \<and> n_rows ex_df = 5 \<and>
   race_col ex_df = Some [Some ''W'', Some ''B'', None, Some ''W'', Some ''X''] \<and>
   race_percentages_printed (printed (explore_basic_statistics ex_st)) = [40, 20, 20] \<and>
   sum_list (race_percentages_printed (printed (explore_basic_statistics ex_st))) = 80"
proof -
  have "race_percentages_printed (printed (explore_basic_statistics ex_st)) = [40, 20, 20]"
    by (simp add: ex_st_def ex_df_def ex_raw_def init_def explore_basic_statistics_def
        printed_def groupby_size_def race_lines_def value_counts_def unique_def
        race_percentage_def round2_def round_half_even_def)
  then show ?thesis
    by (simp add: load_ex_raw) (simp add: ex_st_def ex_df_def ex_raw_def)
qed

text \<open>
  C4.  No state code occurs twice in the region table, so the dictionary
  \<open>state_to_region\<close> built from it sends every state code of the table to the one
  region that lists it, and its keys are the state codes of the table.  When the table has
  a \<open>state\<close> column, \<open>analyze_geographic_patterns\<close> stores a region column with one cell
  per row: the region of the row's state, or a missing value when the state is missing or
  is no key of the dictionary.  The region counts give, for every region, the number of
  rows whose state maps to it (no entry when there is none), and they sum to the number
  of rows whose state is in the table: the other rows are in no count.  The method returns
  and draws these counts when some row's state is in the table; when none is, the pie
  call raises ValueError after the region column was stored.
\<close>

theorem region_assignment:
  "distinct (concat (map snd region_mapping)) \<and>
   (\<forall>(region, states) \<in> set region_mapping. \<forall>s \<in> set states. state_to_region s = Some region) \<and>
   dom state_to_region = set (concat (map snd region_mapping)) \<and>
   (shootings_data st = Some df \<and> state_col df = Some ss \<longrightarrow>
      snd (analyze_geographic_patterns st) =
        st\<lparr>shootings_data := Some (df\<lparr>region_col := Some (region_of ss)\<rparr>)\<rparr> \<and>
      ((\<exists>cell \<in> set ss. Option.bind cell state_to_region \<noteq> None) \<longrightarrow>
         (\<exists>fig. fst (analyze_geographic_patterns st) = Inr [ShowGeographic fig] \<and>
                region_pie fig = Some (value_counts (region_of ss)))) \<and>
      ((\<forall>cell \<in> set ss. Option.bind cell state_to_region = None) \<longrightarrow>
         fst (analyze_geographic_patterns st) = Inl (ValueError ''All wedge sizes are zero'')) \<and>
      length (region_of ss) = length ss \<and>
      (\<forall>i < length ss. region_of ss ! i = Option.bind (ss ! i) state_to_region) \<and>
      (\<forall>g. map_of (value_counts (region_of ss)) g =
            (let k = length (filter (\<lambda>cell. Option.bind cell state_to_region = Some g) ss)
             in if k = 0 then None else Some k)) \<and>
      sum_list (map snd (value_counts (region_of ss))) =
        length (filter (\<lambda>cell. Option.bind cell state_to_region \<noteq> None) ss))"
proof -
  have members: "\<forall>(region, states) \<in> set region_mapping. \<forall>s \<in> set states. state_to_region s = Some region"
    by (auto dest: state_to_region_member)
  have stored: "snd (analyze_geographic_patterns st) =
        st\<lparr>shootings_data := Some (df\<lparr>region_col := Some (region_of ss)\<rparr>)\<rparr>"
    if "shootings_data st = Some df \<and> state_col df = Some ss"
    using that by (simp add: analyze_geographic_patterns_def Let_def split: sum.splits)
  have drawn: "\<exists>fig. fst (analyze_geographic_patterns st) = Inr [ShowGeographic fig] \<and>
                region_pie fig = Some (value_counts (region_of ss))"
    if "shootings_data st = Some df \<and> state_col df = Some ss"
      and "\<exists>cell \<in> set ss. Option.bind cell state_to_region \<noteq> None"
  proof -
    from that(2) have "dropna (region_of ss) \<noteq> []"
      by (simp only: region_counts_nonempty)
    with that(1) show ?thesis
      by (simp add: analyze_geographic_patterns_def Let_def pie_value_counts)
  qed
  have refused: "fst (analyze_geographic_patterns st) = Inl (ValueError ''All wedge sizes are zero'')"
    if "shootings_data st = Some df \<and> state_col df = Some ss"
      and "\<forall>cell \<in> set ss. Option.bind cell state_to_region = None"
  proof -
    from that(2) have "dropna (region_of ss) = []"
      using region_counts_nonempty [of ss] by auto
    with that(1) show ?thesis
      by (simp add: analyze_geographic_patterns_def Let_def pie_value_counts)
  qed
  have len: "length (region_of ss) = length ss"
    by (simp add: region_of_def)
  have cells: "\<forall>i < length ss. region_of ss ! i = Option.bind (ss ! i) state_to_region"
    by (simp add: region_of_def)
  have counts: "\<forall>g. map_of (value_counts (region_of ss)) g =
            (let k = length (filter (\<lambda>cell. Option.bind cell state_to_region = Some g) ss)
             in if k = 0 then None else Some k)"
    by (simp add: map_of_value_counts count_region_of [symmetric] Let_def count_list_0_iff)
  have total: "sum_list (map snd (value_counts (region_of ss))) =
        length (filter (\<lambda>cell. Option.bind cell state_to_region \<noteq> None) ss)"
    by (simp add: sum_value_counts length_dropna_region_of)
  from distinct_region_states members dom_state_to_region stored drawn refused len cells counts total
  show ?thesis
    by blast
qed

theorem region_assignment_witness:
  "shootings_data ex_st = Some ex_df \<and>
   state_col ex_df = Some [Some ''TX'', Some ''CA'', Some ''PR'', None, Some ''DC''] \<and>
   (''Southwest'', [''AZ'', ''NM'', ''OK'', ''TX'']) \<in> set region_mapping \<and>
   state_to_region ''TX'' = Some ''Southwest'' \<and>
   snd (analyze_geographic_patterns ex_st) =
     ex_st\<lparr>shootings_data := Some (ex_df\<lparr>region_col :=
        Some (region_of [Some ''TX'', Some ''CA'', Some ''PR'', None, Some ''DC''])\<rparr>)\<rparr> \<and>
   (\<exists>fig. fst (analyze_geographic_patterns ex_st) = Inr [ShowGeographic fig] \<and>
          region_pie fig = Some (value_counts (region_of [Some ''TX'', Some ''CA'', Some ''PR'', None, Some ''DC'']))) \<and>
   sum_list (map snd (value_counts (region_of [Some ''TX'', Some ''CA'', Some ''PR'', None, Some ''DC'']))) =
     length (filter (\<lambda>cell. Option.bind cell state_to_region \<noteq> None)
               [Some ''TX'', Some ''CA'', Some ''PR'', None, Some ''DC''])"
proof -
  have h: "shootings_data ex_st = Some ex_df \<and>
      state_col ex_df = Some [Some ''TX'', Some ''CA'', Some ''PR'', None, Some ''DC'']"
    by (simp add: ex_st_def ex_df_def ex_raw_def)
  have m: "(''Southwest'', [''AZ'', ''NM'', ''OK'', ''TX'']) \<in> set region_mapping"
    by (simp add: region_mapping_def)
  note inst = region_assignment [of ex_st ex_df "[Some ''TX'', Some ''CA'', Some ''PR'', None, Some ''DC'']"]
  from inst m have "\<forall>s \<in> set [''AZ'', ''NM'', ''OK'', ''TX'']. state_to_region s = Some ''Southwest''"
    by blast
  then have tx: "state_to_region ''TX'' = Some ''Southwest''"
    by simp
  then have some: "\<exists>cell \<in> set [Some ''TX'', Some ''CA'', Some ''PR'', None, Some ''DC''].
      Option.bind cell state_to_region \<noteq> None"
    by simp
  from inst h some have drawn: "\<exists>fig. fst (analyze_geographic_patterns ex_st) = Inr [ShowGeographic fig] \<and>
          region_pie fig = Some (value_counts (region_of [Some ''TX'', Some ''CA'', Some ''PR'', None, Some ''DC'']))"
    by blast
  from inst h m tx drawn show ?thesis
    by blast
qed

text \<open>
  C5 (as amended).  The comparison table built from the race column has exactly one row
  for every race code that occurs in the data and is a key of \<open>us_population_race\<close>,
  and no other row.  In the row of a race, the population rate is the table's percentage
  for it, the shooting rate is its count divided by the sum of the counts of all races
  that occur, times 100, and the ratio is the shooting rate divided by the population
  rate.  When the table is not empty \<open>analyze_demographic_patterns\<close> returns and draws
  it.
\<close>

theorem comparison_table:
  "Race ` set (comparison_data rs) = set (dropna rs) \<inter> fst ` set us_population_race \<and>
   distinct (map Race (comparison_data rs)) \<and>
   (\<forall>row \<in> set (comparison_data rs).
      map_of us_population_race (Race row) = Some (Population_Rate row) \<and>
      Shooting_Rate row = real (count_list (dropna rs) (Race row)) / real (length (dropna rs)) * 100 \<and>
      Ratio row = Shooting_Rate row / Population_Rate row) \<and>
   (shootings_data st = Some df \<and> race_col df = Some rs \<and> comparison_data rs \<noteq> [] \<longrightarrow>
      (\<exists>fig. analyze_demographic_patterns st = (Inr [ShowDemographic fig], st) \<and>
             comparison_bars fig = Some (comparison_data rs)))"
proof -
  have "Race ` set (comparison_data rs) = set (map Race (comparison_data rs))"
    by simp
  also have "\<dots> = {r \<in> fst ` set (value_counts rs). map_of us_population_race r \<noteq> None}"
    by (simp only: comparison_data_def Let_def comparison_loop_races set_filter set_map)
  also have "\<dots> = set (dropna rs) \<inter> fst ` set us_population_race"
    by (auto simp: fst_value_counts map_of_eq_None_iff)
  finally have races: "Race ` set (comparison_data rs) = set (dropna rs) \<inter> fst ` set us_population_race" .
  have dist: "distinct (map Race (comparison_data rs))"
    by (simp add: comparison_data_def Let_def comparison_loop_races distinct_value_counts)
  have rows: "map_of us_population_race (Race row) = Some (Population_Rate row) \<and>
      Shooting_Rate row = real (count_list (dropna rs) (Race row)) / real (length (dropna rs)) * 100 \<and>
      Ratio row = Shooting_Rate row / Population_Rate row"
    if "row \<in> set (comparison_data rs)" for row
  proof -
    from that obtain c where c: "(Race row, c) \<in> set (value_counts rs)"
      and pop: "map_of us_population_race (Race row) = Some (Population_Rate row)"
      and sr: "Shooting_Rate row = real c / real (sum_list (map snd (value_counts rs))) * 100"
      and ratio: "Ratio row = Shooting_Rate row / Population_Rate row"
      unfolding comparison_data_def Let_def by (blast dest: comparison_loop_row)
    from c have "c = count_list (dropna rs) (Race row)"
      by (auto simp: set_value_counts)
    with pop sr ratio show ?thesis
      by (simp add: sum_value_counts)
  qed
  have fig: "\<exists>fig. analyze_demographic_patterns st = (Inr [ShowDemographic fig], st) \<and>
             comparison_bars fig = Some (comparison_data rs)"
    if "shootings_data st = Some df \<and> race_col df = Some rs \<and> comparison_data rs \<noteq> []"
    using that by (simp add: analyze_demographic_patterns_def race_panels_nonempty)
  from races dist rows fig show ?thesis
    by blast
qed

theorem comparison_table_witness:
  "shootings_data ex_st = Some ex_df \<and>
   race_col ex_df = Some [Some ''W'', Some ''B'', None, Some ''W'', Some ''X''] \<and>
   comparison_data [Some ''W'', Some ''B'', None, Some ''W'', Some ''X''] =
     [\<lparr>Race = ''W'', Shooting_Rate = 50, Population_Rate = 72.4, Ratio = 50 / 72.4\<rparr>,
      \<lparr>Race = ''B'', Shooting_Rate = 25, Population_Rate = 12.6, Ratio = 25 / 12.6\<rparr>] \<and>
   Race ` set (comparison_data [Some ''W'', Some ''B'', None, Some ''W'', Some ''X'']) =
     set (dropna [Some ''W'', Some ''B'', None, Some ''W'', Some ''X'']) \<inter> fst ` set us_population_race \<and>
   (\<exists>fig. analyze_demographic_patterns ex_st = (Inr [ShowDemographic fig], ex_st) \<and>
          comparison_bars fig = Some (comparison_data [Some ''W'', Some ''B'', None, Some ''W'', Some ''X'']))"
proof -
  have h: "shootings_data ex_st = Some ex_df \<and>
      race_col ex_df = Some [Some ''W'', Some ''B'', None, Some ''W'', Some ''X'']"
    by (simp add: ex_st_def ex_df_def ex_raw_def)
  have v: "comparison_data [Some ''W'', Some ''B'', None, Some ''W'', Some ''X''] =
     [\<lparr>Race = ''W'', Shooting_Rate = 50, Population_Rate = 72.4, Ratio = 50 / 72.4\<rparr>,
      \<lparr>Race = ''B'', Shooting_Rate = 25, Population_Rate = 12.6, Ratio = 25 / 12.6\<rparr>]"
    by (simp add: comparison_data_def value_counts_def unique_def us_population_race_def)
  then have ne: "comparison_data [Some ''W'', Some ''B'', None, Some ''W'', Some ''X''] \<noteq> []"
    by simp
  from comparison_table [of "[Some ''W'', Some ''B'', None, Some ''W'', Some ''X'']" ex_st ex_df] h v ne
  show ?thesis
    by blast
qed

text \<open>
  C5 as stated fails in the ratio: it takes the share as the count divided by the sum of
  the counts, while the code takes that share times 100.  In the table \<open>ex_raw\<close> the race
  \<open>W\<close> has 2 of the 4 incidents with a race and a population percentage of 72.4; its
  ratio is 50 / 72.4, not (2 / 4) / 72.4.
\<close>

theorem comparison_ratio_counterexample:
  "race_col ex_df = Some [Some ''W'', Some ''B'', None, Some ''W'', Some ''X''] \<and>
   Race (hd (comparison_data [Some ''W'', Some ''B'', None, Some ''W'', Some ''X''])) = ''W'' \<and>
   count_list (dropna [Some ''W'', Some ''B'', None, Some ''W'', Some ''X'']) ''W'' = 2 \<and>
   sum_list (map snd (value_counts [Some ''W'', Some ''B'', None, Some ''W'', Some ''X''])) = 4 \<and>
   map_of us_population_race ''W'' = Some 72.4 \<and>
   Ratio (hd (comparison_data [Some ''W'', Some ''B'', None, Some ''W'', Some ''X''])) = 50 / 72.4 \<and>
   Ratio (hd (comparison_data [Some ''W'', Some ''B'', None, Some ''W'', Some ''X''])) \<noteq> (2 / 4) / 72.4"
  by (simp add: ex_df_def ex_raw_def comparison_data_def value_counts_def unique_def
      us_population_race_def)

text \<open>
  C6.  The armed-status chart is the eight most frequent categories followed by an
  \<open>other\<close> bar for the rest, as long as none of those eight is itself called \<open>other\<close>
  (lemma \<open>armed_chart_without_clash\<close>).  When one of them is, line 200 overwrites that
  category's bar with the sum of the rest instead of adding a bar.  For \<open>clash_col\<close>,
  thirteen incidents in nine categories, the category \<open>other\<close> occurs twice and the one
  category beyond the first eight occurs once: the chart has eight bars, and the bar
  \<open>other\<close> has height 1.
\<close>

theorem armed_chart_label_clash:
  "take 8 (value_counts (map Some (armed_simplified clash_col))) =
     [(''firearm'', 3), (''other'', 2), (''knife/blade'', 2), (''vehicle'', 1), (''toy weapon'', 1),
      (''machete'', 1), (''Taser'', 1), (''hammer'', 1)] \<and>
   drop 8 (value_counts (map Some (armed_simplified clash_col))) = [(''ax'', 1)] \<and>
   armed_chart clash_col =
     [(''firearm'', 3), (''other'', 1), (''knife/blade'', 2), (''vehicle'', 1), (''toy weapon'', 1),
      (''machete'', 1), (''Taser'', 1), (''hammer'', 1)]"
  by (simp add: armed_chart_def clash_col_def armed_simplified_def armed_replace_def
      value_counts_def unique_def setitem_def)

text \<open>
  C7.  Whatever raises inside \<open>load_data\<close> (\<open>read_csv\<close> itself, a table without a
  \<open>date\<close> column, a date that \<open>to_datetime\<close> cannot parse) is caught: the error
  message is printed and False is returned.  True is returned only when the table was
  read, its dates were parsed and the year column was derived.  When \<open>load_data\<close>
  returns False, \<open>main\<close> prints the failure message and ends: its whole output is the
  banner, what \<open>load_data\<close> printed and that message, and no analysis method has run.
\<close>

theorem load_data_outcome:
  "load_data parse (Inl e1) st =
     (([Message ''Loading Washington Post police shootings data...'', ErrorLoading e1], False), st) \<and>
   (date_col raw2 = None \<longrightarrow>
      load_data parse (Inr raw2) st =
        (([Message ''Loading Washington Post police shootings data...'',
           ErrorLoading (KeyError ''date'')], False),
         st\<lparr>shootings_data := Some raw2\<rparr>)) \<and>
   (date_col raw3 = Some c3 \<and> to_datetime parse c3 = Inl e3 \<longrightarrow>
      load_data parse (Inr raw3) st =
        (([Message ''Loading Washington Post police shootings data...'', ErrorLoading e3], False),
         st\<lparr>shootings_data := Some raw3\<rparr>)) \<and>
   (snd (fst (load_data parse csv4 st)) \<longrightarrow>
      (\<exists>raw c ds. csv4 = Inr raw \<and> date_col raw = Some c \<and> to_datetime parse c = Inr ds \<and>
         shootings_data (snd (load_data parse csv4 st)) =
           Some (raw\<lparr>date_col := Some (DatetimeCol ds),
                     year_col := Some (map (map_option ts_year) ds)\<rparr>))) \<and>
   (\<not> snd (fst (load_data parse csv5 init)) \<longrightarrow>
      main parse csv5 =
        (([Message ''Police Fatal Shootings Analysis'', Message (replicate 50 (CHR ''=''))] @
          fst (fst (load_data parse csv5 init)) @
          [Message ''Failed to load data. Please check your internet connection.''], None),
         snd (load_data parse csv5 init)))"
proof (intro conjI impI)
  assume "snd (fst (load_data parse csv4 st))"
  then show "\<exists>raw c ds. csv4 = Inr raw \<and> date_col raw = Some c \<and> to_datetime parse c = Inr ds \<and>
         shootings_data (snd (load_data parse csv4 st)) =
           Some (raw\<lparr>date_col := Some (DatetimeCol ds),
                     year_col := Some (map (map_option ts_year) ds)\<rparr>)"
    by (auto simp: load_data_def Let_def split: sum.splits option.splits)
next
  assume "\<not> snd (fst (load_data parse csv5 init))"
  then show "main parse csv5 =
        (([Message ''Police Fatal Shootings Analysis'', Message (replicate 50 (CHR ''=''))] @
          fst (fst (load_data parse csv5 init)) @
          [Message ''Failed to load data. Please check your internet connection.''], None),
         snd (load_data parse csv5 init))"
    by (cases "load_data parse csv5 init") (auto simp: main_def Let_def)
qed (simp_all add: load_data_def Let_def)

theorem load_data_outcome_witness:
  "load_data ex_parse (Inl (CsvError ''No such file or directory'')) init =
     (([Message ''Loading Washington Post police shootings data...'',
        ErrorLoading (CsvError ''No such file or directory'')], False), init) \<and>
   date_col nodate_raw = None \<and>
   load_data ex_parse (Inr nodate_raw) init =
     (([Message ''Loading Washington Post police shootings data...'',
        ErrorLoading (KeyError ''date'')], False),
      init\<lparr>shootings_data := Some nodate_raw\<rparr>) \<and>
   date_col bad_raw = Some (ObjectCol [Some ''yesterday'']) \<and>
   to_datetime ex_parse (ObjectCol [Some ''yesterday'']) = Inl (ValueError ''Unknown datetime string format'') \<and>
   load_data ex_parse (Inr bad_raw) init =
     (([Message ''Loading Washington Post police shootings data...'',
        ErrorLoading (ValueError ''Unknown datetime string format'')], False),
      init\<lparr>shootings_data := Some bad_raw\<rparr>) \<and>
   snd (fst (load_data ex_parse (Inr ex_raw) init)) \<and>
   shootings_data (snd (load_data ex_parse (Inr ex_raw) init)) = Some ex_df \<and>
   \<not> snd (fst (load_data ex_parse (Inr bad_raw) init)) \<and>
   main ex_parse (Inr bad_raw) =
     (([Message ''Police Fatal Shootings Analysis'', Message (replicate 50 (CHR ''='')),
        Message ''Loading Washington Post police shootings data...'',
        ErrorLoading (ValueError ''Unknown datetime string format''),
        Message ''Failed to load data. Please check your internet connection.''], None),
      init\<lparr>shootings_data := Some bad_raw\<rparr>)"
proof -
  have h2: "date_col nodate_raw = None"
    by (simp add: nodate_raw_def)
  have h3: "date_col bad_raw = Some (ObjectCol [Some ''yesterday'']) \<and>
      to_datetime ex_parse (ObjectCol [Some ''yesterday'']) = Inl (ValueError ''Unknown datetime string format'')"
    by (simp add: bad_raw_def to_datetime_def ex_parse_def)
  have h4: "snd (fst (load_data ex_parse (Inr ex_raw) init))"
    by (simp add: load_ex_raw)
  have ex: "shootings_data (snd (load_data ex_parse (Inr ex_raw) init)) = Some ex_df"
    by (simp add: load_ex_raw ex_st_def)
  note inst = load_data_outcome [of ex_parse "CsvError ''No such file or directory''" init
      nodate_raw bad_raw "ObjectCol [Some ''yesterday'']" "ValueError ''Unknown datetime string format''"
      "Inr ex_raw" "Inr bad_raw"]
  from inst h2 h3 have bad: "load_data ex_parse (Inr bad_raw) init =
     (([Message ''Loading Washington Post police shootings data...'',
        ErrorLoading (ValueError ''Unknown datetime string format'')], False),
      init\<lparr>shootings_data := Some bad_raw\<rparr>)"
    by blast
  then have h5: "\<not> snd (fst (load_data ex_parse (Inr bad_raw) init))"
    by simp
  with inst have "main ex_parse (Inr bad_raw) =
        (([Message ''Police Fatal Shootings Analysis'', Message (replicate 50 (CHR ''=''))] @
          fst (fst (load_data ex_parse (Inr bad_raw) init)) @
          [Message ''Failed to load data. Please check your internet connection.''], None),
         snd (load_data ex_parse (Inr bad_raw) init))"
    by blast
  with bad have m: "main ex_parse (Inr bad_raw) =
     (([Message ''Police Fatal Shootings Analysis'', Message (replicate 50 (CHR ''='')),
        Message ''Loading Washington Post police shootings data...'',
        ErrorLoading (ValueError ''Unknown datetime string format''),
        Message ''Failed to load data. Please check your internet connection.''], None),
      init\<lparr>shootings_data := Some bad_raw\<rparr>)"
    by simp
  from inst h2 h3 h4 ex h5 bad m show ?thesis
    by blast
qed

text \<open>
  C8.  While no data is loaded (\<open>shootings_data\<close> is \<open>None\<close>) each of the five methods
  returns at once, leaving the object as it is; \<open>explore_basic_statistics\<close> and
  \<open>generate_summary_report\<close> print the request to load data first, the other three
  print nothing.
\<close>

theorem unloaded_returns_immediately:
  assumes "shootings_data st = None"
  shows "explore_basic_statistics st = (Inr [Message ''Please load data first.''], st) \<and>
         analyze_temporal_trends st = (Inr [], st) \<and>
         analyze_demographic_patterns st = (Inr [], st) \<and>
         analyze_geographic_patterns st = (Inr [], st) \<and>
         generate_summary_report st = (Inr [Message ''Please load data first.''], st)"
  using assms
  by (simp add: explore_basic_statistics_def analyze_temporal_trends_def
      analyze_demographic_patterns_def analyze_geographic_patterns_def
      generate_summary_report_def)

theorem unloaded_returns_immediately_witness:
  "shootings_data init = None \<and>
   explore_basic_statistics init = (Inr [Message ''Please load data first.''], init) \<and>
   analyze_temporal_trends init = (Inr [], init) \<and>
   analyze_demographic_patterns init = (Inr [], init) \<and>
   analyze_geographic_patterns init = (Inr [], init) \<and>
   generate_summary_report init = (Inr [Message ''Please load data first.''], init)"
proof -
  have h: "shootings_data init = None"
    by (simp add: init_def)
  from unloaded_returns_immediately [OF h] h show ?thesis
    by simp
qed

text \<open>
  C10 (as amended).  \<open>explore_basic_statistics\<close>, \<open>generate_summary_report\<close> and
  \<open>analyze_demographic_patterns\<close> leave the object, and so the table, as it is.
  After \<open>analyze_temporal_trends\<close> the table differs from the one before at most in
  the columns \<open>month\<close> and \<open>day_of_week\<close>, after \<open>analyze_geographic_patterns\<close> at
  most in the column \<open>region\<close>, which are added or, when the table already has a column
  of that name, overwritten: the row count and every other column are the same.  This
  holds whether the method returns or raises.
\<close>

theorem analysis_frame_effect:
  "snd (explore_basic_statistics st) = st \<and>
   snd (generate_summary_report st) = st \<and>
   snd (analyze_demographic_patterns st) = st \<and>
   (case shootings_data st of
      None \<Rightarrow> snd (analyze_temporal_trends st) = st \<and> snd (analyze_geographic_patterns st) = st
    | Some df \<Rightarrow>
        (\<exists>m d. snd (analyze_temporal_trends st) =
                 st\<lparr>shootings_data := Some (df\<lparr>month_col := m, day_of_week_col := d\<rparr>)\<rparr>) \<and>
        (\<exists>r. snd (analyze_geographic_patterns st) =
               st\<lparr>shootings_data := Some (df\<lparr>region_col := r\<rparr>)\<rparr>))"
proof (cases "shootings_data st")
  case None
  then show ?thesis
    by (simp add: explore_state summary_state demographic_state
        analyze_temporal_trends_def analyze_geographic_patterns_def)
next
  case (Some df)
  with temporal_state [OF Some] geographic_state [OF Some] show ?thesis
    by (simp add: explore_state summary_state demographic_state)
qed

theorem analysis_frame_effect_witness:
  "snd (explore_basic_statistics ex_st) = ex_st \<and>
   snd (generate_summary_report ex_st) = ex_st \<and>
   snd (analyze_demographic_patterns ex_st) = ex_st \<and>
   (\<exists>m d. snd (analyze_temporal_trends ex_st) =
            ex_st\<lparr>shootings_data := Some (ex_df\<lparr>month_col := m, day_of_week_col := d\<rparr>)\<rparr>) \<and>
   (\<exists>r. snd (analyze_geographic_patterns ex_st) =
          ex_st\<lparr>shootings_data := Some (ex_df\<lparr>region_col := r\<rparr>)\<rparr>)"
  using analysis_frame_effect [of ex_st] by (simp add: ex_st_def)

text \<open>
  C10 as stated fails on a table that already has one of the three columns: the file of
  \<open>regioned_raw\<close> has a \<open>region\<close> column, the table loads with it, and
  \<open>analyze_geographic_patterns\<close> replaces its cells by the regions derived from the
  states.
\<close>

theorem frame_effect_counterexample:
  "snd (fst (load_data ex_parse (Inr regioned_raw) init)) \<and>
   snd (load_data ex_parse (Inr regioned_raw) init) = regioned_st \<and>
   shootings_data regioned_st = Some regioned_df \<and>
   region_col regioned_df =
     Some [Some ''South'', Some ''Pacific'', Some ''Territory'', None, Some ''Capital''] \<and>
   raised (analyze_geographic_patterns regioned_st) = None \<and>
   map_option region_col (shootings_data (snd (analyze_geographic_patterns regioned_st))) =
     Some (Some [Some ''Southwest'', Some ''West'', None, None, Some ''Other''])"
proof -
  have load: "snd (fst (load_data ex_parse (Inr regioned_raw) init)) \<and>
      snd (load_data ex_parse (Inr regioned_raw) init) = regioned_st"
    by (simp add: load_data_def to_datetime_def ex_parse_def regioned_raw_def regioned_df_def
        regioned_st_def ex_raw_def ex_df_def init_def Let_def)
  have regions: "region_of [Some ''TX'', Some ''CA'', Some ''PR'', None, Some ''DC''] =
      [Some ''Southwest'', Some ''West'', None, None, Some ''Other'']"
    by (simp add: region_of_def state_to_region_def region_mapping_def)
  have "raised (analyze_geographic_patterns regioned_st) = None \<and>
      map_option region_col (shootings_data (snd (analyze_geographic_patterns regioned_st))) =
        Some (Some [Some ''Southwest'', Some ''West'', None, None, Some ''Other''])"
    by (simp add: analyze_geographic_patterns_def regioned_st_def regioned_df_def ex_df_def
        ex_raw_def init_def Let_def regions pie_def value_counts_def unique_def raised_def)
  with load show ?thesis
    by (simp add: regioned_st_def regioned_df_def)
qed

text \<open>
  C9 (as amended).  On a loaded table \<open>analyze_temporal_trends\<close> returns exactly when
  every one of the seven weekday names occurs among the incidents and the number of
  distinct months that occur is twelve or one: indexing the value counts with the full
  Monday-to-Sunday list raises KeyError when a weekday is missing, and the bar call
  pairs the twelve x-positions with twelve counts or repeats a single count over them,
  and raises ValueError for any other number.  Months being between 1 and 12, twelve
  distinct months are all twelve months.  Whenever the method returns, the day-of-week
  bars are the counts of Monday to Sunday in this order.
\<close>

theorem temporal_trends_precondition:
  assumes "shootings_data st = Some df" and "loaded df" and "date_col df = Some (DatetimeCol ds)"
  shows "((\<exists>out st'. analyze_temporal_trends st = (Inr out, st')) \<longleftrightarrow>
            set day_order \<subseteq> set (dropna (map (map_option day_name) ds)) \<and>
            (card (set (dropna (map (map_option ts_month) ds))) = 12 \<or>
             card (set (dropna (map (map_option ts_month) ds))) = 1)) \<and>
         (\<forall>out st'. analyze_temporal_trends st = (Inr out, st') \<longrightarrow>
            (\<exists>fig. out = [ShowTemporal fig] \<and>
               day_bars fig =
                 zip [0..<7] (map (count_list (dropna (map (map_option day_name) ds))) day_order) \<and>
               day_ticklabels fig = [''Mon'', ''Tue'', ''Wed'', ''Thu'', ''Fri'', ''Sat'', ''Sun''])) \<and>
         ((\<forall>t \<in> set (dropna ds). 1 \<le> ts_month t \<and> ts_month t \<le> 12) \<longrightarrow>
            (card (set (dropna (map (map_option ts_month) ds))) = 12 \<longleftrightarrow>
             set (dropna (map (map_option ts_month) ds)) = {1..12}))"
proof -
  let ?months = "map (map_option ts_month) ds"
  let ?days = "map (map_option day_name) ds"
  let ?ok = "set day_order \<subseteq> set (dropna ?days) \<and>
      (card (set (dropna ?months)) = 12 \<or> card (set (dropna ?months)) = 1)"
  from assms(2,3) have ys: "year_col df = Some (map (map_option ts_year) ds)"
    by (auto elim: loaded_cols)
  have len: "length (map snd (groupby_size ?months)) = card (set (dropna ?months))"
    by (simp add: length_groupby_size)
  have good: "\<exists>fig. analyze_temporal_trends st =
        (Inr [ShowTemporal fig],
         st\<lparr>shootings_data := Some (df\<lparr>month_col := Some ?months, day_of_week_col := Some ?days\<rparr>)\<rparr>) \<and>
      day_bars fig = zip [0..<7] (map (count_list (dropna ?days)) day_order) \<and>
      day_ticklabels fig = [''Mon'', ''Tue'', ''Wed'', ''Thu'', ''Fri'', ''Sat'', ''Sun'']"
    if ok: ?ok
  proof -
    from ok len obtain mbars where "bar [1..<13] (map snd (groupby_size ?months)) = Inr mbars"
      using bar_months [of "map snd (groupby_size ?months)"] by auto
    from temporal_success [OF assms(1,3) ys this] ok show ?thesis
      by (simp add: day_order_def)
  qed
  have bad: "\<exists>e. fst (analyze_temporal_trends st) = Inl e" if "\<not> ?ok"
  proof (cases "set day_order \<subseteq> set (dropna ?days)")
    case False
    then show ?thesis
      by (rule temporal_fails_days [OF assms(1,3) ys])
  next
    case True
    with that len have "\<not> (\<exists>r. bar [1..<13] (map snd (groupby_size ?months)) = Inr r)"
      using bar_months [of "map snd (groupby_size ?months)"] by auto
    then obtain e where "bar [1..<13] (map snd (groupby_size ?months)) = Inl e"
      by (cases "bar [1..<13] (map snd (groupby_size ?months))") auto
    from temporal_fails_months [OF assms(1,3) ys this] show ?thesis
      by blast
  qed
  have iff: "(\<exists>out st'. analyze_temporal_trends st = (Inr out, st')) \<longleftrightarrow> ?ok"
  proof
    assume "\<exists>out st'. analyze_temporal_trends st = (Inr out, st')"
    then show ?ok
      using bad by (cases ?ok) auto
  next
    assume ?ok
    from good [OF this] show "\<exists>out st'. analyze_temporal_trends st = (Inr out, st')"
      by blast
  qed
  have order: "\<exists>fig. out = [ShowTemporal fig] \<and>
      day_bars fig = zip [0..<7] (map (count_list (dropna ?days)) day_order) \<and>
      day_ticklabels fig = [''Mon'', ''Tue'', ''Wed'', ''Thu'', ''Fri'', ''Sat'', ''Sun'']"
    if "analyze_temporal_trends st = (Inr out, st')" for out st'
  proof -
    from that iff have ?ok by blast
    from good [OF this] that show ?thesis
      by auto
  qed
  have months: "card (set (dropna ?months)) = 12 \<longleftrightarrow> set (dropna ?months) = {1..12}"
    if "\<forall>t \<in> set (dropna ds). 1 \<le> ts_month t \<and> ts_month t \<le> 12"
  proof -
    from that have sub: "set (dropna ?months) \<subseteq> {1..12}"
      by (auto simp: dropna_map_option)
    show ?thesis
    proof
      assume "card (set (dropna ?months)) = 12"
      with sub show "set (dropna ?months) = {1..12}"
        by (intro card_subset_eq) simp_all
    next
      assume "set (dropna ?months) = {1..12}"
      then show "card (set (dropna ?months)) = 12"
        by simp
    qed
  qed
  from iff order months show ?thesis
    by blast
qed

theorem temporal_trends_precondition_witness:
  "shootings_data year_st = Some year_df \<and> loaded year_df \<and>
   date_col year_df = Some (DatetimeCol year_dates) \<and>
   set day_order \<subseteq> set (dropna (map (map_option day_name) year_dates)) \<and>
   card (set (dropna (map (map_option ts_month) year_dates))) = 12 \<and>
   set (dropna (map (map_option ts_month) year_dates)) = {1..12} \<and>
   (\<exists>fig st'. analyze_temporal_trends year_st = (Inr [ShowTemporal fig], st') \<and>
      day_bars fig = [(0, 2), (1, 2), (2, 2), (3, 2), (4, 2), (5, 1), (6, 1)] \<and>
      day_ticklabels fig = [''Mon'', ''Tue'', ''Wed'', ''Thu'', ''Fri'', ''Sat'', ''Sun''])"
proof -
  have h1: "shootings_data year_st = Some year_df"
    by (simp add: year_st_def)
  have h3: "date_col year_df = Some (DatetimeCol year_dates)"
    by (simp add: year_df_def)
  have days: "set day_order \<subseteq> set (dropna (map (map_option day_name) year_dates))"
    by (simp add: day_names_year day_order_def)
  have months: "dropna (map (map_option ts_month) year_dates) = [1, 2, 3, 4, 5, 6, 7, 8, 9, 10, 11, 12]"
    by (simp add: year_dates_def)
  have card: "card (set (dropna (map (map_option ts_month) year_dates))) = 12"
    by (simp add: months)
  have valid: "\<forall>t \<in> set (dropna year_dates). 1 \<le> ts_month t \<and> ts_month t \<le> 12"
    by (simp add: year_dates_def)
  have bars: "zip [0..<7] (map (count_list (dropna (map (map_option day_name) year_dates))) day_order)
      = [(0, 2), (1, 2), (2, 2), (3, 2), (4, 2), (5, 1), (6, 1)]"
    by (simp add: day_names_year day_order_def upt_rec)
  note inst = temporal_trends_precondition [OF h1 loaded_year_df h3]
  from inst days card obtain out st' where run: "analyze_temporal_trends year_st = (Inr out, st')"
    by blast
  with inst obtain fig where "out = [ShowTemporal fig]"
    and "day_bars fig = zip [0..<7] (map (count_list (dropna (map (map_option day_name) year_dates))) day_order)"
    and "day_ticklabels fig = [''Mon'', ''Tue'', ''Wed'', ''Thu'', ''Fri'', ''Sat'', ''Sun'']"
    by blast
  with run bars have fig: "\<exists>fig st'. analyze_temporal_trends year_st = (Inr [ShowTemporal fig], st') \<and>
      day_bars fig = [(0, 2), (1, 2), (2, 2), (3, 2), (4, 2), (5, 1), (6, 1)] \<and>
      day_ticklabels fig = [''Mon'', ''Tue'', ''Wed'', ''Thu'', ''Fri'', ''Sat'', ''Sun'']"
    by auto
  from inst valid card have "set (dropna (map (map_option ts_month) year_dates)) = {1..12}"
    by blast
  with h1 loaded_year_df h3 days card valid fig show ?thesis
    by blast
qed

text \<open>
  C9 as stated fails on a table whose incidents all lie in one month: the seven incidents
  of \<open>week_raw\<close>, Monday to Sunday of the first week of January 2018, load, and
  \<open>analyze_temporal_trends\<close> returns with twelve monthly bars of height 7.
\<close>

theorem temporal_trends_counterexample:
  "snd (fst (load_data ex_parse (Inr week_raw) init)) \<and>
   snd (load_data ex_parse (Inr week_raw) init) = week_st \<and>
   shootings_data week_st = Some week_df \<and>
   date_col week_df = Some (DatetimeCol week_dates) \<and>
   dropna (map (map_option ts_month) week_dates) = [1, 1, 1, 1, 1, 1, 1] \<and>
   raised (analyze_temporal_trends week_st) = None \<and>
   printed (analyze_temporal_trends week_st) =
     [ShowTemporal
       \<lparr>yearly_line = [(2018, 7)],
        monthly_bars = [(1, 7), (2, 7), (3, 7), (4, 7), (5, 7), (6, 7), (7, 7), (8, 7), (9, 7),
                        (10, 7), (11, 7), (12, 7)],
        day_bars = [(0, 1), (1, 1), (2, 1), (3, 1), (4, 1), (5, 1), (6, 1)],
        day_ticklabels = [''Mon'', ''Tue'', ''Wed'', ''Thu'', ''Fri'', ''Sat'', ''Sun''],
        age_hist = None\<rparr>]"
proof -
  have months: "map (map_option ts_month) week_dates = [Some 1, Some 1, Some 1, Some 1, Some 1, Some 1, Some 1]"
    by (simp add: week_dates_def)
  have years: "map (map_option ts_year) week_dates = [Some 2018, Some 2018, Some 2018, Some 2018, Some 2018, Some 2018, Some 2018]"
    by (simp add: week_dates_def)
  have run: "analyze_temporal_trends week_st =
     (Inr [ShowTemporal
       \<lparr>yearly_line = [(2018, 7)],
        monthly_bars = [(1, 7), (2, 7), (3, 7), (4, 7), (5, 7), (6, 7), (7, 7), (8, 7), (9, 7),
                        (10, 7), (11, 7), (12, 7)],
        day_bars = [(0, 1), (1, 1), (2, 1), (3, 1), (4, 1), (5, 1), (6, 1)],
        day_ticklabels = [''Mon'', ''Tue'', ''Wed'', ''Thu'', ''Fri'', ''Sat'', ''Sun''],
        age_hist = None\<rparr>],
      week_st\<lparr>shootings_data := Some (week_df\<lparr>month_col := Some (map (map_option ts_month) week_dates),
         day_of_week_col := Some (map (map_option day_name) week_dates)\<rparr>)\<rparr>)"
    by (simp add: analyze_temporal_trends_def week_st_def week_df_def week_raw_def init_def Let_def
        months years day_names_week groupby_size_def value_counts_def unique_def bar_def
        day_order_def upt_rec)
  show ?thesis
    by (simp add: load_week_raw run raised_def printed_def months)
       (simp add: week_st_def week_df_def)
qed

end
